theory Spec2Isabelle
  imports Main
begin

section \<open>The asset-catalog compilation script \<^verbatim>\<open>tools/mac/icons/compile_car.py\<close>\<close>

text \<open>
  A shallow embedding of the script. Python names are kept; a leading underscore is
  dropped, since an Isabelle name cannot start with one (\<^verbatim>\<open>_split_version\<close> is
  \<open>split_version\<close>). The text of a \<^verbatim>\<open>str\<close> and the bytes of a \<^verbatim>\<open>bytes\<close>
  are both \<^typ>\<open>string\<close>; characters beyond ASCII are not modelled.
\<close>

subsection \<open>Values of a parsed property list\<close>

text \<open>
  \<^verbatim>\<open>plistlib.loads\<close> returns dictionaries, lists, strings, integers, booleans and
  bytes. A dictionary is an association list read with \<^const>\<open>map_of\<close>; its keys are
  distinct, as those of a parsed dictionary are. Reals and dates are left out: no branch
  of the script reads one.
\<close>

datatype plist =
    PDict "(string \<times> plist) list"
  | PArray "plist list"
  | PString string
  | PInteger int
  | PBool bool
  | PData string

text \<open>A \<^verbatim>\<open>pathlib.PurePosixPath\<close>: the root (\<open>''''\<close>, \<open>''/''\<close> or \<open>''//''\<close>) and the components.\<close>

record path =
  path_root :: string
  path_tail :: "string list"

subsection \<open>Exceptions\<close>

text \<open>
  The messages of \<^verbatim>\<open>AssetCatalogException\<close>. Where the script formats a dictionary or
  a list into the message (\<^verbatim>\<open>f'actool failed; {failures}'\<close>), the message carries the
  value itself and not its \<^verbatim>\<open>repr\<close>.
\<close>

datatype ac_message =
    Message string
  | ActoolFailed "(string \<times> plist) list"
  | WrongOutputCount nat plist
  | UnexpectedOutputFile path

datatype exn =
    ValueError string
  | KeyError string
  | TypeError
  | AttributeError
  | AssetCatalogException ac_message

subsection \<open>Strings: \<^verbatim>\<open>str.split\<close>, \<^verbatim>\<open>str.join\<close>, \<^verbatim>\<open>str\<close> and \<^verbatim>\<open>int\<close>\<close>


definition is_int_space :: "char \<Rightarrow> bool" where
  "is_int_space c = (let n = (of_char c :: nat) in (9 \<le> n \<and> n \<le> 13) \<or> n = 32)"

definition is_digit :: "char \<Rightarrow> bool" where
  "is_digit c = (let n = (of_char c :: nat) in 48 \<le> n \<and> n \<le> 57)"

definition digit_val :: "char \<Rightarrow> nat" where
  "digit_val c = of_char c - 48"

definition digit_chr :: "nat \<Rightarrow> char" where
  "digit_chr d = char_of (48 + d)"

text \<open>\<^verbatim>\<open>s.split(sep)\<close> for a separator of one character: never an empty list.\<close>

fun split_on :: "char \<Rightarrow> string \<Rightarrow> string list" where
  "split_on sep [] = [[]]"
| "split_on sep (c # cs) =
     (if c = sep then [] # split_on sep cs
      else (case split_on sep cs of [] \<Rightarrow> [[c]] | x # xs \<Rightarrow> (c # x) # xs))"

text \<open>\<^verbatim>\<open>sep.join(xs)\<close>.\<close>

fun join :: "string \<Rightarrow> string list \<Rightarrow> string" where
  "join sep [] = []"
| "join sep [x] = x"
| "join sep (x # y # ys) = x @ sep @ join sep (y # ys)"

text \<open>\<^verbatim>\<open>str(n)\<close> for an integer: decimal, with a minus sign when negative.\<close>

fun str_nat :: "nat \<Rightarrow> string" where
  "str_nat n = (if n < 10 then [digit_chr n] else str_nat (n div 10) @ [digit_chr (n mod 10)])"

definition str_int :: "int \<Rightarrow> string" where
  "str_int i = (if i < 0 then CHR ''-'' # str_nat (nat (- i)) else str_nat (nat i))"

text \<open>
  \<^verbatim>\<open>int(s)\<close> for a string: surrounding whitespace is stripped, one sign is allowed,
  and the digits may be grouped by single underscores. Everything else is a
  \<^verbatim>\<open>ValueError\<close>. Python's integers are unbounded; the interpreter's optional limit on
  the length of a decimal conversion is not modelled.
\<close>

definition strip :: "string \<Rightarrow> string" where
  "strip s = rev (dropWhile is_int_space (rev (dropWhile is_int_space s)))"

fun digits_ok :: "bool \<Rightarrow> string \<Rightarrow> bool" where
  "digits_ok prev [] = prev"
| "digits_ok prev (c # cs) =
     (if is_digit c then digits_ok True cs
      else if c = CHR ''_'' \<and> prev then digits_ok False cs
      else False)"

definition digits_value :: "string \<Rightarrow> nat" where
  "digits_value s = foldl (\<lambda>a c. 10 * a + digit_val c) 0 s"

definition py_int :: "string \<Rightarrow> exn + int" where
  "py_int s =
     (let t = strip s;
          neg = (t \<noteq> [] \<and> hd t = CHR ''-'');
          body = (if t \<noteq> [] \<and> (hd t = CHR ''-'' \<or> hd t = CHR ''+'') then tl t else t)
      in if digits_ok False body
         then Inr ((if neg then - 1 else 1) * int (digits_value (filter (\<lambda>c. c \<noteq> CHR ''_'') body)))
         else Inl (ValueError ''invalid literal for int() with base 10''))"

text \<open>A comprehension whose element expression can raise: the first exception wins.\<close>

fun map_exn :: "('a \<Rightarrow> exn + 'b) \<Rightarrow> 'a list \<Rightarrow> exn + 'b list" where
  "map_exn f [] = Inr []"
| "map_exn f (x # xs) =
     (case f x of
        Inl e \<Rightarrow> Inl e
      | Inr y \<Rightarrow> (case map_exn f xs of Inl e \<Rightarrow> Inl e | Inr ys \<Rightarrow> Inr (y # ys)))"

subsection \<open>Versions\<close>

text \<open>\<^verbatim>\<open>tuple(int(x) for x in version.split('.'))\<close>\<close>

definition split_version :: "string \<Rightarrow> exn + int list" where
  "split_version version = map_exn py_int (split_on CHR ''.'' version)"

text \<open>\<^verbatim>\<open>'.'.join((str(x) for x in version))\<close>\<close>

definition unsplit_version :: "int list \<Rightarrow> string" where
  "unsplit_version version = join ''.'' (map str_int version)"

text \<open>\<^verbatim>\<open>_REQUIRED_ACTOOL_VERSION = _split_version('26.0')\<close>, evaluated when the module loads.\<close>

definition REQUIRED_ACTOOL_VERSION :: "int list" where
  "REQUIRED_ACTOOL_VERSION = (case split_version ''26.0'' of Inr v \<Rightarrow> v | Inl e \<Rightarrow> [])"

text \<open>
  Python's \<^verbatim>\<open><\<close> on tuples: the first position where the two differ decides; when one
  is a prefix of the other, the shorter is the smaller.
\<close>

fun tuple_lt :: "int list \<Rightarrow> int list \<Rightarrow> bool" where
  "tuple_lt [] [] = False"
| "tuple_lt [] (y # ys) = True"
| "tuple_lt (x # xs) [] = False"
| "tuple_lt (x # xs) (y # ys) = (if x = y then tuple_lt xs ys else x < y)"

text \<open>\<^verbatim>\<open>d[key]\<close> with a string key: only a dictionary can be subscripted by a string.\<close>

fun subscript :: "plist \<Rightarrow> string \<Rightarrow> exn + plist" where
  "subscript (PDict d) k = (case map_of d k of None \<Rightarrow> Inl (KeyError k) | Some v \<Rightarrow> Inr v)"
| "subscript (PArray xs) k = Inl TypeError"
| "subscript (PString s) k = Inl TypeError"
| "subscript (PInteger i) k = Inl TypeError"
| "subscript (PBool b) k = Inl TypeError"
| "subscript (PData s) k = Inl TypeError"

text \<open>
  \<^verbatim>\<open>_split_version\<close> applied to a value of the property list: \<^verbatim>\<open>.split('.')\<close>
  exists on a string only (on bytes it refuses a string separator).
\<close>

fun split_version_of :: "plist \<Rightarrow> exn + int list" where
  "split_version_of (PString s) = split_version s"
| "split_version_of (PData s) = Inl TypeError"
| "split_version_of (PDict d) = Inl AttributeError"
| "split_version_of (PArray xs) = Inl AttributeError"
| "split_version_of (PInteger i) = Inl AttributeError"
| "split_version_of (PBool b) = Inl AttributeError"

text \<open>
  \<^verbatim>\<open>_verify_actool_version\<close>. The argument is the parsed reply of
  \<^verbatim>\<open>xcrun actool --output-format=xml1 --version\<close>, which the environment gives.
\<close>

definition verify_actool_version :: "plist \<Rightarrow> exn + unit" where
  "verify_actool_version output_dict =
     (case subscript output_dict ''com.apple.actool.version'' of
        Inl e \<Rightarrow> Inl e
      | Inr info \<Rightarrow>
          (case subscript info ''short-bundle-version'' of
             Inl e \<Rightarrow> Inl e
           | Inr s \<Rightarrow>
               (case split_version_of s of
                  Inl e \<Rightarrow> Inl e
                | Inr version \<Rightarrow>
                    if tuple_lt version REQUIRED_ACTOOL_VERSION
                    then Inl (AssetCatalogException (Message
                           (''actool is too old; it is version '' @ unsplit_version version @
                            '' but at least version '' @ unsplit_version REQUIRED_ACTOOL_VERSION @
                            '' is required'')))
                    else Inr ())))"

subsection \<open>The deployment target: one match of a regular expression\<close>










subsection \<open>Paths\<close>

text \<open>
  \<^verbatim>\<open>pathlib.Path(s)\<close> on a POSIX system (\<^verbatim>\<open>actool\<close> exists on macOS only): empty
  components and \<^verbatim>\<open>.\<close> components are dropped, \<^verbatim>\<open>..\<close> is kept.
\<close>

definition Path :: "string \<Rightarrow> path" where
  "Path s =
     \<lparr> path_root = (if take 2 s = ''//'' \<and> take 3 s \<noteq> ''///'' then ''//''
                    else if take 1 s = ''/'' then ''/'' else ''''),
       path_tail = filter (\<lambda>c. c \<noteq> [] \<and> c \<noteq> ''.'') (split_on CHR ''/'' s) \<rparr>"

text \<open>\<^verbatim>\<open>str(p)\<close>\<close>

definition path_str :: "path \<Rightarrow> string" where
  "path_str p =
     (if path_root p = [] \<and> path_tail p = [] then ''.''
      else path_root p @ join ''/'' (path_tail p))"

text \<open>\<^verbatim>\<open>p.joinpath(s)\<close>: an absolute \<open>s\<close> replaces \<open>p\<close>.\<close>

definition joinpath :: "path \<Rightarrow> string \<Rightarrow> path" where
  "joinpath p s =
     (if s \<noteq> [] \<and> hd s = CHR ''/'' then Path s
      else p\<lparr>path_tail := path_tail p @ path_tail (Path s)\<rparr>)"

text \<open>\<^verbatim>\<open>p.name\<close>: the final component, empty when there is none.\<close>

definition path_name :: "path \<Rightarrow> string" where
  "path_name p = (if path_tail p = [] then [] else last (path_tail p))"

text \<open>\<^verbatim>\<open>name.rfind(c)\<close>, with \<open>None\<close> for Python's \<open>-1\<close>.\<close>

definition rfind :: "char \<Rightarrow> string \<Rightarrow> nat option" where
  "rfind c s =
     (if c \<in> set s then Some (length s - 1 - length (takeWhile (\<lambda>x. x \<noteq> c) (rev s)))
      else None)"

text \<open>
  \<^verbatim>\<open>p.suffix\<close> and \<^verbatim>\<open>p.stem\<close>, as pathlib defines them up to Python 3.13:
  \<^verbatim>\<open>i = name.rfind('.')\<close>, and the name is cut at \<open>i\<close> when \<^verbatim>\<open>0 < i < len(name) - 1\<close>.
\<close>

definition path_suffix :: "path \<Rightarrow> string" where
  "path_suffix p =
     (let name = path_name p
      in case rfind CHR ''.'' name of
           None \<Rightarrow> []
         | Some i \<Rightarrow> if 0 < i \<and> i < length name - 1 then drop i name else [])"

definition path_stem :: "path \<Rightarrow> string" where
  "path_stem p =
     (let name = path_name p
      in case rfind CHR ''.'' name of
           None \<Rightarrow> name
         | Some i \<Rightarrow> if 0 < i \<and> i < length name - 1 then take i name else name)"

text \<open>\<^verbatim>\<open>pathlib.Path(x)\<close> for a value of the property list: a string only.\<close>

fun as_path :: "plist \<Rightarrow> exn + path" where
  "as_path (PString s) = Inr (Path s)"
| "as_path (PDict d) = Inl TypeError"
| "as_path (PArray xs) = Inl TypeError"
| "as_path (PInteger i) = Inl TypeError"
| "as_path (PBool b) = Inl TypeError"
| "as_path (PData s) = Inl TypeError"

subsection \<open>Python's view of a value: truth, length, iteration, \<^verbatim>\<open>.get\<close>\<close>

text \<open>\<^verbatim>\<open>bool(v)\<close>: a container is true when it is not empty.\<close>

fun truthy :: "plist \<Rightarrow> bool" where
  "truthy (PDict d) = (d \<noteq> [])"
| "truthy (PArray xs) = (xs \<noteq> [])"
| "truthy (PString s) = (s \<noteq> [])"
| "truthy (PInteger i) = (i \<noteq> 0)"
| "truthy (PBool b) = b"
| "truthy (PData s) = (s \<noteq> [])"

fun py_len :: "plist \<Rightarrow> exn + nat" where
  "py_len (PDict d) = Inr (length d)"
| "py_len (PArray xs) = Inr (length xs)"
| "py_len (PString s) = Inr (length s)"
| "py_len (PData s) = Inr (length s)"
| "py_len (PInteger i) = Inl TypeError"
| "py_len (PBool b) = Inl TypeError"

text \<open>
  \<^verbatim>\<open>for x in v\<close>: the elements of a list, the keys of a dictionary, the characters of
  a string, the bytes of a bytes object.
\<close>

fun iterate :: "plist \<Rightarrow> exn + plist list" where
  "iterate (PArray xs) = Inr xs"
| "iterate (PDict d) = Inr (map (\<lambda>kv. PString (fst kv)) d)"
| "iterate (PString s) = Inr (map (\<lambda>c. PString [c]) s)"
| "iterate (PData s) = Inr (map (\<lambda>c. PInteger (of_char c)) s)"
| "iterate (PInteger i) = Inl TypeError"
| "iterate (PBool b) = Inl TypeError"

text \<open>\<^verbatim>\<open>d.get(key)\<close>: \<open>None\<close> is Python's \<^verbatim>\<open>None\<close>; only a dictionary has the method.\<close>

fun dict_get :: "plist \<Rightarrow> string \<Rightarrow> exn + plist option" where
  "dict_get (PDict d) k = Inr (map_of d k)"
| "dict_get (PArray xs) k = Inl AttributeError"
| "dict_get (PString s) k = Inl AttributeError"
| "dict_get (PInteger i) k = Inl AttributeError"
| "dict_get (PBool b) k = Inl AttributeError"
| "dict_get (PData s) k = Inl AttributeError"

text \<open>\<^verbatim>\<open>d[key] = value\<close>: a present key keeps its place, a new key goes last.\<close>

fun dict_set :: "(string \<times> plist) list \<Rightarrow> string \<Rightarrow> plist \<Rightarrow> (string \<times> plist) list" where
  "dict_set [] k v = [(k, v)]"
| "dict_set (p # ps) k v = (if fst p = k then (k, v) # ps else p # dict_set ps k v)"

subsection \<open>\<^verbatim>\<open>_process_path\<close>: the environment\<close>

text \<open>
  What the script does to the world is a list of events, in order. The world answers in
  two places: \<^verbatim>\<open>tempfile.TemporaryDirectory()\<close> gives the name of a directory, and
  \<^verbatim>\<open>actool\<close> gives a return code, a standard output (here already parsed by
  \<^verbatim>\<open>plistlib.loads\<close>) and a standard error. Failures of the operating system (a file
  that cannot be copied, a missing \<^verbatim>\<open>xcrun\<close>, an output that is no property list) are
  not modelled: the copies and the parse succeed.
\<close>

datatype event =
    MkTemp string
  | RmTemp string
  | CopyTree path path
  | Print string
  | Invoke "string list"
  | CopyFile path path

record process =
  returncode :: int
  output_dict :: plist
  stderr :: string

subsection \<open>Path validation (lines 113 to 120)\<close>

definition name_tag_of :: "path \<Rightarrow> exn + string" where
  "name_tag_of path =
     (if \<not> path_suffix path = ''.xcassets''
      then Inl (ValueError ''Asset catalog filename must have .xcassets suffix'')
      else let name_parts = split_on CHR ''_'' (path_stem path)
           in if length name_parts > 2
              then Inl (ValueError ''Asset catalog filename must have at most one _'')
              else Inr (if length name_parts = 2 then CHR ''_'' # name_parts ! 1 else ''''))"

subsection \<open>The command line (lines 131 to 177)\<close>

definition actool_command :: "path \<Rightarrow> string \<Rightarrow> path \<Rightarrow> path \<Rightarrow> path \<Rightarrow> string list" where
  "actool_command path deployment_target tmp_dir tmp_plist appicon_tmp_path =
     [''xcrun'', ''actool'',
      ''--output-format=xml1'', ''--notices'', ''--warnings'', ''--errors'',
      ''--platform=macosx'', ''--target-device=mac'',
      ''--lightweight-asset-runtime-mode=enabled'',
      ''--enable-icon-stack-fallback-generation=disabled'',
      ''--app-icon=AppIcon'',
      ''--minimum-deployment-target='' @ deployment_target,
      ''--output-partial-info-plist='' @ path_str tmp_plist,
      ''--compile='' @ path_str tmp_dir,
      path_str path,
      path_str appicon_tmp_path]"

subsection \<open>Classification (lines 186 to 228)\<close>

text \<open>
  The filter of the document warnings:
  \<^verbatim>\<open>[warning for warning in warnings if warning['type'] != 'Ambiguous Content']\<close>.
  A warning without \<^verbatim>\<open>type\<close> is a \<^verbatim>\<open>KeyError\<close>, a warning that is no dictionary a
  \<^verbatim>\<open>TypeError\<close>.
\<close>

definition keep_warning :: "plist \<Rightarrow> exn + bool" where
  "keep_warning warning =
     (case subscript warning ''type'' of
        Inl e \<Rightarrow> Inl e
      | Inr t \<Rightarrow> Inr (t \<noteq> PString ''Ambiguous Content''))"

fun filter_exn :: "('a \<Rightarrow> exn + bool) \<Rightarrow> 'a list \<Rightarrow> exn + 'a list" where
  "filter_exn f [] = Inr []"
| "filter_exn f (x # xs) =
     (case f x of
        Inl e \<Rightarrow> Inl e
      | Inr b \<Rightarrow>
          (case filter_exn f xs of
             Inl e \<Rightarrow> Inl e
           | Inr ys \<Rightarrow> Inr (if b then x # ys else ys)))"

definition warnings_filter :: "plist \<Rightarrow> exn + plist" where
  "warnings_filter warnings =
     (case iterate warnings of
        Inl e \<Rightarrow> Inl e
      | Inr ws \<Rightarrow> (case filter_exn keep_warning ws of Inl e \<Rightarrow> Inl e | Inr r \<Rightarrow> Inr (PArray r)))"

text \<open>
  The nested function \<^verbatim>\<open>collect_failures\<close>. It changes \<^verbatim>\<open>failures\<close> in place; here
  it returns the new dictionary.
\<close>

definition collect_failures ::
  "plist \<Rightarrow> string \<Rightarrow> (string \<times> plist) list \<Rightarrow> string \<Rightarrow> (plist \<Rightarrow> exn + plist) option
     \<Rightarrow> exn + (string \<times> plist) list" where
  "collect_failures output output_dict_key failures failures_key filter_opt =
     (case dict_get output output_dict_key of
        Inl e \<Rightarrow> Inl e
      | Inr None \<Rightarrow> Inr failures
      | Inr (Some v) \<Rightarrow>
          (case (case filter_opt of None \<Rightarrow> Inr v | Some f \<Rightarrow> f v) of
             Inl e \<Rightarrow> Inl e
           | Inr v' \<Rightarrow> if \<not> truthy v' then Inr failures else Inr (dict_set failures failures_key v')))"

definition bind_exn :: "exn + 'a \<Rightarrow> ('a \<Rightarrow> exn + 'b) \<Rightarrow> exn + 'b" where
  "bind_exn r f = (case r of Inl e \<Rightarrow> Inl e | Inr x \<Rightarrow> f x)"

text \<open>The dictionary \<^verbatim>\<open>failures\<close> when line 224 is reached.\<close>

definition gather_failures :: "process \<Rightarrow> exn + (string \<times> plist) list" where
  "gather_failures p =
     (let failures = (if returncode p \<noteq> 0
                      then dict_set [] ''return code'' (PString (str_int (returncode p)))
                      else [])
      in bind_exn (collect_failures (output_dict p) ''com.apple.actool.errors'' failures
                     ''errors'' None) (\<lambda>failures.
         bind_exn (collect_failures (output_dict p) ''com.apple.actool.document.errors'' failures
                     ''document errors'' None) (\<lambda>failures.
         bind_exn (collect_failures (output_dict p) ''com.apple.actool.warnings'' failures
                     ''warnings'' None) (\<lambda>failures.
         bind_exn (collect_failures (output_dict p) ''com.apple.actool.document.warnings'' failures
                     ''document warnings'' (Some warnings_filter)) (\<lambda>failures.
         bind_exn (collect_failures (output_dict p) ''com.apple.actool.notices'' failures
                     ''notices'' None) (\<lambda>failures.
         collect_failures (output_dict p) ''com.apple.actool.document.notices'' failures
                     ''document notices'' None))))))"

text \<open>Lines 224 to 228: \<^verbatim>\<open>if failures:\<close> attaches the standard error and raises.\<close>

definition classify :: "process \<Rightarrow> exn + unit" where
  "classify p =
     bind_exn (gather_failures p) (\<lambda>failures.
       if failures \<noteq> []
       then Inl (AssetCatalogException (ActoolFailed (dict_set failures ''stderr'' (PData (stderr p)))))
       else Inr ())"

subsection \<open>Relocation (lines 230 to 263)\<close>

text \<open>The loop over the output files. A raise keeps the copies made before it.\<close>

fun route_outputs :: "bool \<Rightarrow> path \<Rightarrow> string \<Rightarrow> plist list \<Rightarrow> event list \<times> (exn + unit)" where
  "route_outputs verbose source_dir name_tag [] = ([], Inr ())"
| "route_outputs verbose source_dir name_tag (f # fs) =
     (case as_path f of
        Inl e \<Rightarrow> ([], Inl e)
      | Inr output_file \<Rightarrow>
          if path_name output_file = ''partial.plist''
          then route_outputs verbose source_dir name_tag fs
          else if path_name output_file = ''AppIcon.icns''
          then (let destination_path = joinpath source_dir (''app'' @ name_tag @ ''.icns'');
                    rest = route_outputs verbose source_dir name_tag fs
                in ((if verbose then [Print (''  Copying output to: '' @ path_str destination_path)]
                     else [])
                    @ [CopyFile output_file destination_path] @ fst rest, snd rest))
          else if path_name output_file = ''Assets.car''
          then (let destination_path = joinpath source_dir (''Assets'' @ name_tag @ ''.car'');
                    rest = route_outputs verbose source_dir name_tag fs
                in ((if verbose then [Print (''  Copying output to: '' @ path_str destination_path)]
                     else [])
                    @ [CopyFile output_file destination_path] @ fst rest, snd rest))
          else ([], Inl (AssetCatalogException (UnexpectedOutputFile output_file))))"

definition relocate :: "bool \<Rightarrow> path \<Rightarrow> string \<Rightarrow> plist \<Rightarrow> event list \<times> (exn + unit)" where
  "relocate verbose source_dir name_tag output =
     (case dict_get output ''com.apple.actool.compilation-results'' of
        Inl e \<Rightarrow> ([], Inl e)
      | Inr None \<Rightarrow> ([], Inl (AssetCatalogException (Message ''actool had no compilation results'')))
      | Inr (Some compilation_results) \<Rightarrow>
          (case dict_get compilation_results ''output-files'' of
             Inl e \<Rightarrow> ([], Inl e)
           | Inr None \<Rightarrow> ([], Inl (AssetCatalogException (Message ''actool had no output files'')))
           | Inr (Some output_files) \<Rightarrow>
               (case py_len output_files of
                  Inl e \<Rightarrow> ([], Inl e)
                | Inr n \<Rightarrow>
                    if n \<noteq> 3
                    then ([], Inl (AssetCatalogException (WrongOutputCount n output_files)))
                    else (case iterate output_files of
                            Inl e \<Rightarrow> ([], Inl e)
                          | Inr fs \<Rightarrow> route_outputs verbose source_dir name_tag fs))))"

subsection \<open>\<^verbatim>\<open>_process_path\<close>\<close>

text \<open>
  The arguments after \<open>verbose\<close> are the answers of the world: the name of the
  temporary directory and what \<^verbatim>\<open>actool\<close> returns. The \<^verbatim>\<open>with\<close> block removes the
  directory on every way out.
\<close>

definition process_path ::
  "path \<Rightarrow> string \<Rightarrow> bool \<Rightarrow> string \<Rightarrow> process \<Rightarrow> event list \<times> (exn + unit)" where
  "process_path path deployment_target verbose tmp proc =
     (let tmp_dir = Path tmp;
          tmp_plist = joinpath tmp_dir ''partial.plist'';
          body =
            (case name_tag_of path of
               Inl e \<Rightarrow> ([], Inl e)
             | Inr name_tag \<Rightarrow>
                 (let source_dir = joinpath path ''..'';
                      appicon_original_path = joinpath source_dir (''AppIcon'' @ name_tag @ ''.icon'');
                      appicon_tmp_path = joinpath tmp_dir ''AppIcon.icon'';
                      command = actool_command path deployment_target tmp_dir tmp_plist
                                  appicon_tmp_path;
                      started = [CopyTree appicon_original_path appicon_tmp_path]
                                @ (if verbose then [Print (''  Invoking: '' @ join '' '' command)]
                                   else [])
                                @ [Invoke command]
                  in case classify proc of
                       Inl e \<Rightarrow> (started, Inl e)
                     | Inr u \<Rightarrow>
                         (let moved = relocate verbose source_dir name_tag (output_dict proc)
                          in (started @ fst moved, snd moved))))
      in (MkTemp tmp # fst body @ [RmTemp tmp], snd body))"

subsection \<open>Predicates of the statements\<close>

text \<open>
  A decimal numeral as \<^verbatim>\<open>str\<close> prints it: digits only, and no leading zero unless it
  is \<open>''0''\<close> itself.
\<close>

definition canonical :: "string \<Rightarrow> bool" where
  "canonical s = (s \<noteq> [] \<and> list_all is_digit s \<and> (s = ''0'' \<or> hd s \<noteq> CHR ''0''))"

text \<open>
  What a collection contributes to the failures: its value when the key is present and the
  value is true in Python's sense (for a list or a dictionary: not empty).
\<close>

definition contribution :: "(string \<times> plist) list \<Rightarrow> string \<Rightarrow> plist option" where
  "contribution d k =
     (case map_of d k of None \<Rightarrow> None | Some v \<Rightarrow> if truthy v then Some v else None)"

definition present_nonempty :: "(string \<times> plist) list \<Rightarrow> string \<Rightarrow> bool" where
  "present_nonempty d k = (case map_of d k of None \<Rightarrow> False | Some v \<Rightarrow> truthy v)"

text \<open>A document warning as \<^verbatim>\<open>actool\<close> writes it: a dictionary with a \<^verbatim>\<open>type\<close>.\<close>

fun has_type :: "plist \<Rightarrow> bool" where
  "has_type (PDict e) = (map_of e ''type'' \<noteq> None)"
| "has_type (PArray xs) = False"
| "has_type (PString s) = False"
| "has_type (PInteger i) = False"
| "has_type (PBool b) = False"
| "has_type (PData s) = False"

text \<open>
  An entry that is not an allow-listed warning: anything but a dictionary whose
  \<^verbatim>\<open>type\<close> is \<^verbatim>\<open>Ambiguous Content\<close>.
\<close>

fun unexpected_warning :: "plist \<Rightarrow> bool" where
  "unexpected_warning (PDict e) = (map_of e ''type'' \<noteq> Some (PString ''Ambiguous Content''))"
| "unexpected_warning (PArray xs) = True"
| "unexpected_warning (PString s) = True"
| "unexpected_warning (PInteger i) = True"
| "unexpected_warning (PBool b) = True"
| "unexpected_warning (PData s) = True"

text \<open>
  The document warnings of a reply are well formed when the key is absent or bound to a
  list of dictionaries that each have a \<^verbatim>\<open>type\<close>. On any other value the filter raises
  \<^verbatim>\<open>KeyError\<close> or \<^verbatim>\<open>TypeError\<close>.
\<close>

definition wellformed_warnings :: "(string \<times> plist) list \<Rightarrow> bool" where
  "wellformed_warnings d =
     (case map_of d ''com.apple.actool.document.warnings'' of
        None \<Rightarrow> True
      | Some w \<Rightarrow> (case w of PArray ws \<Rightarrow> list_all has_type ws | _ \<Rightarrow> False))"

definition unexpected_warnings :: "(string \<times> plist) list \<Rightarrow> plist list" where
  "unexpected_warnings d =
     (case map_of d ''com.apple.actool.document.warnings'' of
        None \<Rightarrow> []
      | Some w \<Rightarrow> (case w of PArray ws \<Rightarrow> filter unexpected_warning ws | _ \<Rightarrow> []))"

text \<open>
  A value bound to the document warnings holds an entry that is not allow-listed: a list
  with such an entry; a dictionary, a string or bytes that are not empty (their entries
  are keys, characters and numbers, never a warning); an integer or a boolean (no
  collection at all).
\<close>

fun holds_unexpected :: "plist \<Rightarrow> bool" where
  "holds_unexpected (PArray ws) = list_ex unexpected_warning ws"
| "holds_unexpected (PDict e) = (e \<noteq> [])"
| "holds_unexpected (PString s) = (s \<noteq> [])"
| "holds_unexpected (PData s) = (s \<noteq> [])"
| "holds_unexpected (PInteger i) = True"
| "holds_unexpected (PBool b) = True"

definition has_unexpected_warning :: "(string \<times> plist) list \<Rightarrow> bool" where
  "has_unexpected_warning d =
     (case map_of d ''com.apple.actool.document.warnings'' of
        None \<Rightarrow> False
      | Some w \<Rightarrow> holds_unexpected w)"

text \<open>What the filtered document warnings contribute, or the exception of the filter.\<close>

definition filtered_warnings :: "(string \<times> plist) list \<Rightarrow> exn + plist option" where
  "filtered_warnings d =
     (case map_of d ''com.apple.actool.document.warnings'' of
        None \<Rightarrow> Inr None
      | Some w \<Rightarrow>
          (case warnings_filter w of
             Inl e \<Rightarrow> Inl e
           | Inr v \<Rightarrow> Inr (if truthy v then Some v else None)))"

text \<open>
  The dictionary \<^verbatim>\<open>failures\<close> in closed form: one optional entry per reason, in the
  order of the script. \<open>w\<close> is what the filtered document warnings contribute.
\<close>

fun add_reason :: "(string \<times> plist) list \<Rightarrow> string \<Rightarrow> plist option \<Rightarrow> (string \<times> plist) list" where
  "add_reason f k None = f"
| "add_reason f k (Some v) = dict_set f k v"

definition reasons :: "process \<Rightarrow> (string \<times> plist) list \<Rightarrow> plist option \<Rightarrow> (string \<times> plist) list" where
  "reasons p d w =
     add_reason (add_reason (add_reason (add_reason (add_reason (add_reason
       (if returncode p \<noteq> 0 then [(''return code'', PString (str_int (returncode p)))] else [])
       ''errors'' (contribution d ''com.apple.actool.errors''))
       ''document errors'' (contribution d ''com.apple.actool.document.errors''))
       ''warnings'' (contribution d ''com.apple.actool.warnings''))
       ''document warnings'' w)
       ''notices'' (contribution d ''com.apple.actool.notices''))
       ''document notices'' (contribution d ''com.apple.actool.document.notices'')"

text \<open>The destination files written: the source and the destination of every file copy.\<close>

fun copies :: "event list \<Rightarrow> (path \<times> path) list" where
  "copies [] = []"
| "copies (CopyFile src dst # es) = (src, dst) # copies es"
| "copies (MkTemp t # es) = copies es"
| "copies (RmTemp t # es) = copies es"
| "copies (CopyTree a b # es) = copies es"
| "copies (Print s # es) = copies es"
| "copies (Invoke c # es) = copies es"

text \<open>Replies of \<^verbatim>\<open>actool\<close> used as examples.\<close>

definition compilation_results :: "string list \<Rightarrow> string \<times> plist" where
  "compilation_results fs =
     (''com.apple.actool.compilation-results'', PDict [(''output-files'', PArray (map PString fs))])"

definition standard_outputs :: "string list" where
  "standard_outputs = [''/tmp/t/partial.plist'', ''/tmp/t/AppIcon.icns'', ''/tmp/t/Assets.car'']"

text \<open>One notice (a missing image), return code 0, nothing else.\<close>

definition notice_reply :: process where
  "notice_reply =
     \<lparr> returncode = 0,
       output_dict = PDict
         [(''com.apple.actool.errors'', PArray []),
          (''com.apple.actool.notices'',
             PArray [PDict [(''description'', PString ''missing image''), (''type'', PString ''Missing'')]]),
          compilation_results standard_outputs],
       stderr = ''spew'' \<rparr>"

text \<open>One allow-listed document warning and two empty collections, nothing else.\<close>

definition ambiguous_reply :: process where
  "ambiguous_reply =
     \<lparr> returncode = 0,
       output_dict = PDict
         [(''com.apple.actool.errors'', PArray []),
          (''com.apple.actool.notices'', PArray []),
          (''com.apple.actool.document.warnings'',
             PArray [PDict [(''description'', PString ''fallback''), (''type'', PString ''Ambiguous Content'')]]),
          compilation_results standard_outputs],
       stderr = [] \<rparr>"

text \<open>
  Return code 1, an error, two document warnings of which one is allow-listed, and an
  empty list of notices.
\<close>

definition failed_dict :: "(string \<times> plist) list" where
  "failed_dict =
     [(''com.apple.actool.errors'', PArray [PDict [(''description'', PString ''bad catalog'')]]),
      (''com.apple.actool.document.warnings'',
         PArray [PDict [(''type'', PString ''Ambiguous Content'')],
                 PDict [(''type'', PString ''Unassigned Child'')]]),
      (''com.apple.actool.notices'', PArray [])]"

definition failed_reply :: process where
  "failed_reply = \<lparr> returncode = 1, output_dict = PDict failed_dict, stderr = ''spew'' \<rparr>"

text \<open>Four output files, and three of which one has a name that is not expected.\<close>

definition four_outputs :: "string list" where
  "four_outputs = standard_outputs @ [''/tmp/t/extra.bin'']"

definition stray_outputs :: "string list" where
  "stray_outputs = [''/tmp/t/AppIcon.icns'', ''/tmp/t/notes.txt'', ''/tmp/t/Assets.car'']"

text \<open>One document warning that is not allow-listed, nothing else.\<close>

definition lone_warning_reply :: process where
  "lone_warning_reply =
     \<lparr> returncode = 0,
       output_dict = PDict
         [(''com.apple.actool.document.warnings'',
             PArray [PDict [(''type'', PString ''Unassigned Child'')]]),
          compilation_results standard_outputs],
       stderr = ''spew'' \<rparr>"

text \<open>
  Return code 1, an error, and a document warning without \<^verbatim>\<open>type\<close>: the filter
  raises \<^verbatim>\<open>KeyError\<close>.
\<close>

definition untyped_warning_reply :: process where
  "untyped_warning_reply =
     \<lparr> returncode = 1,
       output_dict = PDict
         [(''com.apple.actool.errors'', PArray [PDict [(''description'', PString ''bad catalog'')]]),
          (''com.apple.actool.document.warnings'',
             PArray [PDict [(''description'', PString ''no type here'')]])],
       stderr = ''spew'' \<rparr>"

text \<open>A clean reply that names the transient plist three times.\<close>

definition three_plists_reply :: process where
  "three_plists_reply =
     \<lparr> returncode = 0,
       output_dict = PDict
         [compilation_results
            [''/tmp/t/partial.plist'', ''/tmp/t/partial.plist'', ''/tmp/t/partial.plist'']],
       stderr = [] \<rparr>"

text \<open>The three names \<^verbatim>\<open>_process_path\<close> expects among the output files.\<close>

definition recognized :: "string \<Rightarrow> bool" where
  "recognized f = (path_name (Path f) \<in> set [''partial.plist'', ''AppIcon.icns'', ''Assets.car''])"

text \<open>
  The file \<open>name\<close> beside the catalog, as the script addresses it: the components of
  the catalog path, then \<^verbatim>\<open>..\<close>, then the name
  (\<^verbatim>\<open>chrome/Foo.xcassets/../app.icns\<close>).
\<close>

definition sibling :: "path \<Rightarrow> string \<Rightarrow> path" where
  "sibling catalog name =
     \<lparr> path_root = path_root catalog, path_tail = path_tail catalog @ [''..'', name] \<rparr>"

text \<open>
  The copy the routing asks for one output file: none for the transient plist, the icon
  to \<^verbatim>\<open>app<NameTag>.icns\<close> and the archive to \<^verbatim>\<open>Assets<NameTag>.car\<close>, both
  beside the catalog.
\<close>

definition expected_copy :: "path \<Rightarrow> string \<Rightarrow> string \<Rightarrow> (path \<times> path) list" where
  "expected_copy catalog name_tag f =
     (if path_name (Path f) = ''AppIcon.icns''
      then [(Path f, sibling catalog (''app'' @ name_tag @ ''.icns''))]
      else if path_name (Path f) = ''Assets.car''
      then [(Path f, sibling catalog (''Assets'' @ name_tag @ ''.car''))]
      else [])"

text \<open>The same with the destination as the loop computes it from \<^verbatim>\<open>source_dir\<close>.\<close>

definition routed_copy :: "path \<Rightarrow> string \<Rightarrow> string \<Rightarrow> (path \<times> path) list" where
  "routed_copy source_dir name_tag f =
     (if path_name (Path f) = ''AppIcon.icns''
      then [(Path f, joinpath source_dir (''app'' @ name_tag @ ''.icns''))]
      else if path_name (Path f) = ''Assets.car''
      then [(Path f, joinpath source_dir (''Assets'' @ name_tag @ ''.car''))]
      else [])"

text \<open>A copy goes from a recognised output to the destination of its kind.\<close>

definition destination_ok :: "path \<Rightarrow> string \<Rightarrow> path \<times> path \<Rightarrow> bool" where
  "destination_ok parent name_tag c =
     ((path_name (fst c) = ''AppIcon.icns'' \<and>
       snd c = joinpath parent (''app'' @ name_tag @ ''.icns'')) \<or>
      (path_name (fst c) = ''Assets.car'' \<and>
       snd c = joinpath parent (''Assets'' @ name_tag @ ''.car'')))"

text \<open>A reply with return code 0, no diagnostics, and the given output files.\<close>

definition clean_reply :: "string list \<Rightarrow> process" where
  "clean_reply fs = \<lparr> returncode = 0, output_dict = PDict [compilation_results fs], stderr = [] \<rparr>"




section \<open>Versions: parsing and printing\<close>

lemma digit_not_space: "is_digit c \<Longrightarrow> \<not> is_int_space c"
  by (auto simp: is_digit_def is_int_space_def Let_def)

lemma digit_not_special:
  "is_digit c \<Longrightarrow> c \<noteq> CHR ''-'' \<and> c \<noteq> CHR ''+'' \<and> c \<noteq> CHR ''_'' \<and> c \<noteq> CHR ''.''"
  by (auto simp: is_digit_def Let_def)

lemma digit_chr_val: "is_digit c \<Longrightarrow> digit_chr (digit_val c) = c"
  by (simp add: is_digit_def digit_chr_def digit_val_def Let_def)

lemma digit_val_lt: "is_digit c \<Longrightarrow> digit_val c < 10"
  by (auto simp: is_digit_def digit_val_def Let_def)

lemma digit_val_zero:
  assumes "is_digit c"
  shows "digit_val c = 0 \<longleftrightarrow> c = CHR ''0''"
proof
  assume "digit_val c = 0"
  with assms have "of_char c = (of_char CHR ''0'' :: nat)"
    by (simp add: is_digit_def digit_val_def Let_def)
  then show "c = CHR ''0''" by (simp only: of_char_eq_iff)
next
  assume "c = CHR ''0''"
  then show "digit_val c = 0" by (simp add: digit_val_def)
qed

lemma digits_value_snoc: "digits_value (s @ [c]) = 10 * digits_value s + digit_val c"
  by (simp add: digits_value_def)

lemma split_on_nosep: "sep \<notin> set a \<Longrightarrow> split_on sep a = [a]"
  by (induction a) auto

lemma split_on_sep: "sep \<notin> set a \<Longrightarrow> split_on sep (a @ sep # r) = a # split_on sep r"
  by (induction a) auto

lemma digits_ok_all: "list_all is_digit s \<Longrightarrow> digits_ok p s = (p \<or> s \<noteq> [])"
  by (induction s arbitrary: p) auto

lemma strip_digits: "list_all is_digit s \<Longrightarrow> strip s = s"
proof (cases s rule: rev_cases)
  case Nil
  then show ?thesis by (simp add: strip_def)
next
  case (snoc ys y)
  assume a: "list_all is_digit s"
  have h: "\<not> is_int_space (hd s)" using a snoc by (cases ys) (auto simp: digit_not_space)
  have l: "\<not> is_int_space y" using a snoc by (auto simp: digit_not_space)
  have "dropWhile is_int_space s = s" using h by (simp add: dropWhile_eq_self_iff)
  moreover have "dropWhile is_int_space (rev s) = rev s" using l snoc by simp
  ultimately show ?thesis by (simp add: strip_def)
qed

lemma py_int_digits:
  assumes "list_all is_digit s" "s \<noteq> []"
  shows "py_int s = Inr (int (digits_value s))"
proof -
  have h: "hd s \<noteq> CHR ''-'' \<and> hd s \<noteq> CHR ''+''"
    using assms by (cases s) (auto dest: digit_not_special)
  have f: "filter (\<lambda>c. c \<noteq> CHR ''_'') s = s"
    using assms(1) by (induction s) (auto dest: digit_not_special)
  show ?thesis
    using assms h f by (simp add: py_int_def strip_digits digits_ok_all Let_def)
qed

lemma digits_value_pos:
  "list_all is_digit s \<Longrightarrow> s \<noteq> [] \<Longrightarrow> hd s \<noteq> CHR ''0'' \<Longrightarrow> 0 < digits_value s"
proof (induction s rule: rev_induct)
  case Nil
  then show ?case by simp
next
  case (snoc c s)
  show ?case
  proof (cases "s = []")
    case True
    with snoc.prems have "is_digit c" "c \<noteq> CHR ''0''" by auto
    then have "digit_val c \<noteq> 0" by (simp add: digit_val_zero)
    with True show ?thesis by (simp add: digits_value_def)
  next
    case False
    with snoc have "0 < digits_value s" by auto
    then show ?thesis by (simp add: digits_value_snoc)
  qed
qed

lemma str_nat_digits_value: "canonical s \<Longrightarrow> str_nat (digits_value s) = s"
proof (induction s rule: rev_induct)
  case Nil
  then show ?case by (simp add: canonical_def)
next
  case (snoc c s)
  then have dc: "is_digit c" by (simp add: canonical_def)
  show ?case
  proof (cases "s = []")
    case True
    have "digits_value [c] = digit_val c" by (simp add: digits_value_def)
    with True dc show ?thesis by (simp add: digit_val_lt digit_chr_val)
  next
    case False
    with snoc.prems have hs: "hd s \<noteq> CHR ''0''" "list_all is_digit s"
      by (auto simp: canonical_def)
    with False have cs: "canonical s" by (simp add: canonical_def)
    have pos: "0 < digits_value s" using hs False by (simp add: digits_value_pos)
    have lt: "digit_val c < 10" using dc by (rule digit_val_lt)
    have "str_nat (digits_value (s @ [c])) = str_nat (10 * digits_value s + digit_val c)"
      by (simp add: digits_value_snoc)
    also have "\<dots> = str_nat (digits_value s) @ [digit_chr (digit_val c)]"
      using pos lt by (subst str_nat.simps) simp
    also have "\<dots> = s @ [c]" using snoc.IH cs dc by (simp add: digit_chr_val)
    finally show ?thesis .
  qed
qed

lemma split_version_two:
  assumes "canonical a" "canonical b"
  shows "split_version (a @ ''.'' @ b) = Inr [int (digits_value a), int (digits_value b)]"
proof -
  have na: "CHR ''.'' \<notin> set a" using assms(1)
    by (auto simp: canonical_def list_all_iff dest: digit_not_special)
  have nb: "CHR ''.'' \<notin> set b" using assms(2)
    by (auto simp: canonical_def list_all_iff dest: digit_not_special)
  have "split_on CHR ''.'' (a @ ''.'' @ b) = [a, b]"
    using na nb by (simp add: split_on_sep split_on_nosep)
  then show ?thesis using assms by (simp add: split_version_def canonical_def py_int_digits)
qed

lemma required_version: "REQUIRED_ACTOOL_VERSION = [26, 0]"
  by code_simp

text \<open>
  Claim C8, as stated: for every version string \<open>a.b\<close> whose segments are strings of
  decimal digits, \<^const>\<open>split_version\<close> followed by \<^const>\<open>unsplit_version\<close> gives the
  string back. It fails on a leading zero: \<^verbatim>\<open>int('01')\<close> is \<open>1\<close>, so \<open>''01.0''\<close>
  comes back as \<open>''1.0''\<close>.
\<close>

theorem version_roundtrip_leading_zero:
  "list_all is_digit ''01'' \<and> list_all is_digit ''0'' \<and>
   split_version ''01.0'' = Inr [1, 0] \<and> unsplit_version [1, 0] = ''1.0'' \<and>
   unsplit_version [1, 0] \<noteq> ''01.0''"
  by code_simp

text \<open>
  Claim C8, amended: for every version string \<open>a.b\<close> whose two segments are decimal
  numerals without a leading zero (\<^const>\<open>canonical\<close>), \<^const>\<open>split_version\<close> returns a
  tuple and \<^const>\<open>unsplit_version\<close> of that tuple is the original string.
\<close>

theorem version_roundtrip:
  assumes "canonical a" and "canonical b"
  shows "\<exists>v. split_version (a @ ''.'' @ b) = Inr v \<and> unsplit_version v = a @ ''.'' @ b"
proof -
  have "split_version (a @ ''.'' @ b) = Inr [int (digits_value a), int (digits_value b)]"
    using assms by (rule split_version_two)
  moreover have "unsplit_version [int (digits_value a), int (digits_value b)] = a @ ''.'' @ b"
    using assms by (simp add: unsplit_version_def str_int_def str_nat_digits_value del: str_nat.simps)
  ultimately show ?thesis by blast
qed

theorem version_roundtrip_witness:
  "canonical ''26'' \<and> canonical ''0'' \<and>
   (\<exists>v. split_version ''26.0'' = Inr v \<and> unsplit_version v = ''26.0'')"
proof -
  have a: "canonical ''26''" by code_simp
  have b: "canonical ''0''" by code_simp
  show ?thesis using a b version_roundtrip [OF a b] by simp
qed

section \<open>The version check of \<^verbatim>\<open>actool\<close>\<close>

text \<open>
  Claim C5: \<^verbatim>\<open>_verify_actool_version\<close> parses the reported version into a tuple of
  integers and compares it with the required \<open>(26, 0)\<close>. When the detected tuple is smaller, it raises an
  \<^verbatim>\<open>AssetCatalogException\<close> whose message prints both the detected and the required
  version; otherwise it returns without error.
\<close>

theorem verify_actool_version_minimum:
  assumes "map_of d ''com.apple.actool.version'' = Some (PDict i)"
    and "map_of i ''short-bundle-version'' = Some (PString s)"
    and "split_version s = Inr detected"
  shows "REQUIRED_ACTOOL_VERSION = [26, 0] \<and>
         verify_actool_version (PDict d) =
           (if tuple_lt detected [26, 0]
            then Inl (AssetCatalogException (Message
                   (''actool is too old; it is version '' @ unsplit_version detected @
                    '' but at least version 26.0 is required'')))
            else Inr ())"
proof -
  have u: "unsplit_version [26, 0] = ''26.0''" by code_simp
  show ?thesis
    using assms by (simp add: verify_actool_version_def required_version u)
qed

theorem verify_actool_version_minimum_witness:
  "verify_actool_version
     (PDict [(''com.apple.actool.version'', PDict [(''short-bundle-version'', PString ''27.0'')])])
     = Inr () \<and>
   verify_actool_version
     (PDict [(''com.apple.actool.version'', PDict [(''short-bundle-version'', PString ''25.3'')])])
     = Inl (AssetCatalogException (Message
         ''actool is too old; it is version 25.3 but at least version 26.0 is required''))"
proof -
  have s27: "split_version ''27.0'' = Inr [27, 0]" by code_simp
  have s25: "split_version ''25.3'' = Inr [25, 3]" by code_simp
  have u25: "unsplit_version [25, 3] = ''25.3''" by code_simp
  have pass: "verify_actool_version
     (PDict [(''com.apple.actool.version'', PDict [(''short-bundle-version'', PString ''27.0'')])])
     = Inr ()"
    using verify_actool_version_minimum
      [of "[(''com.apple.actool.version'', PDict [(''short-bundle-version'', PString ''27.0'')])]"
          "[(''short-bundle-version'', PString ''27.0'')]" "''27.0''" "[27, 0]"] s27
    by simp
  have fail: "verify_actool_version
     (PDict [(''com.apple.actool.version'', PDict [(''short-bundle-version'', PString ''25.3'')])])
     = Inl (AssetCatalogException (Message
         ''actool is too old; it is version 25.3 but at least version 26.0 is required''))"
    using verify_actool_version_minimum
      [of "[(''com.apple.actool.version'', PDict [(''short-bundle-version'', PString ''25.3'')])]"
          "[(''short-bundle-version'', PString ''25.3'')]" "''25.3''" "[25, 3]"] s25 u25
    by simp
  show ?thesis using pass fail by simp
qed

section \<open>Classification\<close>

lemma dict_set_not_Nil: "dict_set f k v \<noteq> []"
  by (cases f) auto

lemma map_of_dict_set: "map_of (dict_set f k v) = (map_of f)(k \<mapsto> v)"
  by (induction f) (auto simp: fun_eq_iff)

lemma add_reason_Nil: "add_reason f k c = [] \<longleftrightarrow> f = [] \<and> c = None"
  by (cases c) (auto simp: dict_set_not_Nil)

lemma map_of_add_reason:
  "map_of (add_reason f k c) k' = (if k' = k \<and> c \<noteq> None then c else map_of f k')"
  by (cases c) (auto simp: map_of_dict_set)

lemma collect_failures_plain:
  "collect_failures (PDict d) k f fk None = Inr (add_reason f fk (contribution d k))"
  by (simp add: collect_failures_def contribution_def split: option.splits)

lemma collect_failures_filtered:
  "collect_failures (PDict d) ''com.apple.actool.document.warnings'' f fk (Some warnings_filter) =
     (case filtered_warnings d of Inl e \<Rightarrow> Inl e | Inr c \<Rightarrow> Inr (add_reason f fk c))"
  by (simp add: collect_failures_def filtered_warnings_def split: option.splits sum.splits)

lemma collect_failures_not_dict:
  "(\<forall>d. out \<noteq> PDict d) \<Longrightarrow> collect_failures out k f fk flt = Inl AttributeError"
  by (cases out) (simp_all add: collect_failures_def)

lemma gather_failures_dict:
  assumes "output_dict p = PDict d"
  shows "gather_failures p =
     (case filtered_warnings d of Inl e \<Rightarrow> Inl e | Inr w \<Rightarrow> Inr (reasons p d w))"
  using assms
  by (simp add: gather_failures_def bind_exn_def collect_failures_plain collect_failures_filtered
      reasons_def Let_def split: sum.splits)

lemma gather_failures_not_dict:
  assumes "\<forall>d. output_dict p \<noteq> PDict d"
  shows "gather_failures p = Inl AttributeError"
  using assms by (simp add: gather_failures_def bind_exn_def collect_failures_not_dict Let_def)

lemma keep_warning_typed: "has_type w \<Longrightarrow> keep_warning w = Inr (unexpected_warning w)"
  by (cases w) (auto simp: keep_warning_def split: option.splits)

lemma filter_exn_typed:
  "list_all has_type ws \<Longrightarrow> filter_exn keep_warning ws = Inr (filter unexpected_warning ws)"
  by (induction ws) (auto simp: keep_warning_typed)

lemma filtered_warnings_wellformed:
  assumes "wellformed_warnings d"
  shows "filtered_warnings d =
           Inr (if has_unexpected_warning d then Some (PArray (unexpected_warnings d)) else None)"
  using assms
  by (auto simp: wellformed_warnings_def filtered_warnings_def has_unexpected_warning_def
      unexpected_warnings_def warnings_filter_def filter_exn_typed list_ex_iff filter_empty_conv
      split: option.splits plist.splits)

lemma unexpected_nonempty:
  "wellformed_warnings d \<Longrightarrow> has_unexpected_warning d = (unexpected_warnings d \<noteq> [])"
  by (auto simp: wellformed_warnings_def has_unexpected_warning_def unexpected_warnings_def
      list_ex_iff filter_empty_conv split: option.splits plist.splits)

lemma keep_warning_Inr: "keep_warning w = Inr b \<Longrightarrow> b = unexpected_warning w"
  by (cases w) (auto simp: keep_warning_def split: option.splits)

lemma keep_warning_Inl: "keep_warning w = Inl e \<Longrightarrow> unexpected_warning w"
  by (cases w) (auto simp: keep_warning_def split: option.splits)

lemma filter_exn_Inr:
  "filter_exn keep_warning ws = Inr r \<Longrightarrow> r = filter unexpected_warning ws"
  by (induction ws arbitrary: r) (auto split: sum.splits dest: keep_warning_Inr)

lemma filter_exn_Inl:
  "filter_exn keep_warning ws = Inl e \<Longrightarrow> list_ex unexpected_warning ws"
  by (induction ws) (auto split: sum.splits dest: keep_warning_Inl)

lemma keep_warning_key: "keep_warning (PString k) = Inl TypeError"
  by (simp add: keep_warning_def)

lemma keep_warning_number: "keep_warning (PInteger i) = Inl TypeError"
  by (simp add: keep_warning_def)

lemma filter_exn_keys:
  "filter_exn keep_warning (map (\<lambda>kv. PString (fst kv)) e) =
     (if e = [] then Inr [] else Inl TypeError)"
  by (cases e) (simp_all add: keep_warning_key)

lemma filter_exn_chars:
  "filter_exn keep_warning (map (\<lambda>c. PString [c]) s) =
     (if s = [] then Inr [] else Inl TypeError)"
  by (cases s) (simp_all add: keep_warning_key)

lemma filter_exn_bytes:
  "filter_exn keep_warning (map (\<lambda>c. PInteger (of_char c)) s) =
     (if s = [] then Inr [] else Inl TypeError)"
  by (cases s) (simp_all add: keep_warning_number)

lemma warnings_filter_Inl: "warnings_filter w = Inl e \<Longrightarrow> holds_unexpected w"
  by (cases w)
     (auto simp: warnings_filter_def filter_exn_keys filter_exn_chars filter_exn_bytes
        split: sum.splits if_splits dest: filter_exn_Inl)

lemma warnings_filter_Inr: "warnings_filter w = Inr v \<Longrightarrow> truthy v = holds_unexpected w"
  by (cases w)
     (auto simp: warnings_filter_def filter_exn_keys filter_exn_chars filter_exn_bytes
        list_ex_iff filter_empty_conv
        split: sum.splits if_splits dest!: filter_exn_Inr)

lemma filtered_warnings_Inl: "filtered_warnings d = Inl e \<Longrightarrow> has_unexpected_warning d"
  by (auto simp: filtered_warnings_def has_unexpected_warning_def
      split: option.splits sum.splits dest: warnings_filter_Inl)

lemma filtered_warnings_Inr:
  "filtered_warnings d = Inr w \<Longrightarrow> (w \<noteq> None) = has_unexpected_warning d"
  by (auto simp: filtered_warnings_def has_unexpected_warning_def
      split: option.splits sum.splits if_splits dest: warnings_filter_Inr)

lemma contribution_present: "contribution d k \<noteq> None \<longleftrightarrow> present_nonempty d k"
  by (simp add: contribution_def present_nonempty_def split: option.splits)

lemma reasons_Nil:
  "reasons p d w = [] \<longleftrightarrow>
     returncode p = 0 \<and> \<not> present_nonempty d ''com.apple.actool.errors'' \<and>
     \<not> present_nonempty d ''com.apple.actool.document.errors'' \<and>
     \<not> present_nonempty d ''com.apple.actool.warnings'' \<and> w = None \<and>
     \<not> present_nonempty d ''com.apple.actool.notices'' \<and>
     \<not> present_nonempty d ''com.apple.actool.document.notices''"
  unfolding reasons_def add_reason_Nil contribution_present [symmetric] by auto

lemma classify_dict:
  assumes "output_dict p = PDict d" and "filtered_warnings d = Inr w"
  shows "classify p =
      (if reasons p d w \<noteq> []
       then Inl (AssetCatalogException
              (ActoolFailed (dict_set (reasons p d w) ''stderr'' (PData (stderr p)))))
       else Inr ())"
  using assms by (simp add: classify_def gather_failures_dict bind_exn_def)

text \<open>
  Claim C1: for every reply that is a dictionary, classification fails if and only if the
  return code is not zero, or one of the errors, document errors, warnings, notices or
  document notices is present and not empty, or the document warnings hold an entry that
  is not an allow-listed warning (\<^const>\<open>has_unexpected_warning\<close>). An absent key
  contributes nothing (\<^const>\<open>present_nonempty\<close> is false for it). When every
  document warning is a dictionary with a \<^verbatim>\<open>type\<close>, the failure is the
  \<^verbatim>\<open>actool failed\<close> exception; an entry of another shape makes the filter itself
  raise \<^verbatim>\<open>KeyError\<close> or \<^verbatim>\<open>TypeError\<close>.
\<close>

theorem classify_fails_iff:
  assumes "output_dict p = PDict d"
  shows "((classify p \<noteq> Inr ()) =
          (returncode p \<noteq> 0 \<or>
           present_nonempty d ''com.apple.actool.errors'' \<or>
           present_nonempty d ''com.apple.actool.document.errors'' \<or>
           present_nonempty d ''com.apple.actool.warnings'' \<or>
           present_nonempty d ''com.apple.actool.notices'' \<or>
           present_nonempty d ''com.apple.actool.document.notices'' \<or>
           has_unexpected_warning d)) \<and>
         (wellformed_warnings d \<longrightarrow>
            classify p = Inr () \<or>
            (\<exists>report. classify p = Inl (AssetCatalogException (ActoolFailed report))))"
proof (cases "filtered_warnings d")
  case (Inl e)
  have c: "classify p = Inl e"
    using assms Inl by (simp add: classify_def gather_failures_dict bind_exn_def)
  have u: "has_unexpected_warning d" using Inl by (rule filtered_warnings_Inl)
  have nw: "\<not> wellformed_warnings d"
    using Inl filtered_warnings_wellformed [of d] by auto
  show ?thesis using c u nw by simp
next
  case (Inr w)
  have n: "(w = None) = (\<not> has_unexpected_warning d)"
    using filtered_warnings_Inr [OF Inr] by auto
  show ?thesis
    unfolding classify_dict [OF assms Inr] using n reasons_Nil [of p d w] by auto
qed

theorem classify_fails_iff_witness:
  "classify notice_reply \<noteq> Inr () \<and> classify ambiguous_reply = Inr () \<and>
   classify failed_reply \<noteq> Inr () \<and> classify lone_warning_reply \<noteq> Inr () \<and>
   classify lone_warning_reply = Inl (AssetCatalogException (ActoolFailed
     [(''document warnings'', PArray [PDict [(''type'', PString ''Unassigned Child'')]]),
      (''stderr'', PData ''spew'')])) \<and>
   classify untyped_warning_reply \<noteq> Inr ()"
proof -
  obtain dn where dn: "output_dict notice_reply = PDict dn"
    by (simp add: notice_reply_def)
  obtain da where da: "output_dict ambiguous_reply = PDict da"
    by (simp add: ambiguous_reply_def)
  have df: "output_dict failed_reply = PDict failed_dict"
    by (simp add: failed_reply_def)
  obtain dl where dl: "output_dict lone_warning_reply = PDict dl"
    by (simp add: lone_warning_reply_def)
  obtain du where du: "output_dict untyped_warning_reply = PDict du"
    by (simp add: untyped_warning_reply_def)
  have 1: "classify notice_reply \<noteq> Inr ()"
    using classify_fails_iff [OF dn] dn
    by (auto simp: notice_reply_def compilation_results_def present_nonempty_def)
  have 2: "classify ambiguous_reply = Inr ()"
    using classify_fails_iff [OF da] da
    by (auto simp: ambiguous_reply_def compilation_results_def present_nonempty_def
        has_unexpected_warning_def)
  have 3: "classify failed_reply \<noteq> Inr ()"
    using classify_fails_iff [OF df] by (simp add: failed_reply_def)
  have 4: "classify lone_warning_reply \<noteq> Inr ()"
    using classify_fails_iff [OF dl] dl
    by (auto simp: lone_warning_reply_def compilation_results_def has_unexpected_warning_def)
  have 5: "classify lone_warning_reply = Inl (AssetCatalogException (ActoolFailed
     [(''document warnings'', PArray [PDict [(''type'', PString ''Unassigned Child'')]]),
      (''stderr'', PData ''spew'')]))"
    by code_simp
  have 6: "classify untyped_warning_reply \<noteq> Inr ()"
    using classify_fails_iff [OF du] by (simp add: untyped_warning_reply_def)
  show ?thesis using 1 2 3 4 5 6 by simp
qed

text \<open>
  Claim C4, as stated: every failing classification raises a failure that carries the
  report with all reasons and the standard error. It fails where the filter of the
  document warnings itself raises: with return code 1, an error and a document warning
  without \<^verbatim>\<open>type\<close>, line 215 raises \<^verbatim>\<open>KeyError\<close> before the report is built, and
  the exception carries neither the reasons nor the standard error.
\<close>

theorem failure_without_report:
  "classify untyped_warning_reply = Inl (KeyError ''type'') \<and>
   classify untyped_warning_reply \<noteq> Inr () \<and>
   \<not> (\<exists>report. classify untyped_warning_reply =
                   Inl (AssetCatalogException (ActoolFailed report)))"
proof -
  have c: "classify untyped_warning_reply = Inl (KeyError ''type'')" by code_simp
  show ?thesis unfolding c by simp
qed

text \<open>
  Claim C4, amended: for every reply that is a dictionary and whose document warnings,
  when present, are a list of dictionaries that each have a \<^verbatim>\<open>type\<close>, a failing
  classification raises the \<^verbatim>\<open>actool failed\<close> exception, and the report it carries
  holds every reason and not only the first: the return code when it is not zero, each
  of errors, document errors, warnings, notices and document notices that is present and
  not empty, the document warnings that are not allow-listed when there are some, and
  always the captured standard error.
\<close>

theorem failure_report_enumerates_reasons:
  assumes "output_dict p = PDict d"
    and "wellformed_warnings d"
    and "classify p \<noteq> Inr ()"
  shows "\<exists>report. classify p = Inl (AssetCatalogException (ActoolFailed report)) \<and>
     map_of report ''return code'' =
       (if returncode p \<noteq> 0 then Some (PString (str_int (returncode p))) else None) \<and>
     map_of report ''errors'' = contribution d ''com.apple.actool.errors'' \<and>
     map_of report ''document errors'' = contribution d ''com.apple.actool.document.errors'' \<and>
     map_of report ''warnings'' = contribution d ''com.apple.actool.warnings'' \<and>
     map_of report ''document warnings'' =
       (if unexpected_warnings d = [] then None else Some (PArray (unexpected_warnings d))) \<and>
     map_of report ''notices'' = contribution d ''com.apple.actool.notices'' \<and>
     map_of report ''document notices'' = contribution d ''com.apple.actool.document.notices'' \<and>
     map_of report ''stderr'' = Some (PData (stderr p))"
proof -
  let ?w = "if unexpected_warnings d = [] then None else Some (PArray (unexpected_warnings d))"
  let ?report = "dict_set (reasons p d ?w) ''stderr'' (PData (stderr p))"
  have w: "filtered_warnings d = Inr ?w"
    using filtered_warnings_wellformed [OF assms(2)] unexpected_nonempty [OF assms(2)]
    by simp
  have c: "classify p = Inl (AssetCatalogException (ActoolFailed ?report))"
    using classify_dict [OF assms(1) w] assms(3) by (simp split: if_splits)
  have 1: "map_of ?report ''return code'' =
       (if returncode p \<noteq> 0 then Some (PString (str_int (returncode p))) else None)"
    by (simp add: map_of_dict_set reasons_def map_of_add_reason)
  have 2: "map_of ?report ''errors'' = contribution d ''com.apple.actool.errors''"
    by (simp add: map_of_dict_set reasons_def map_of_add_reason)
  have 3: "map_of ?report ''document errors'' = contribution d ''com.apple.actool.document.errors''"
    by (simp add: map_of_dict_set reasons_def map_of_add_reason)
  have 4: "map_of ?report ''warnings'' = contribution d ''com.apple.actool.warnings''"
    by (simp add: map_of_dict_set reasons_def map_of_add_reason)
  have 5: "map_of ?report ''document warnings'' = ?w"
    by (simp add: map_of_dict_set reasons_def map_of_add_reason)
  have 6: "map_of ?report ''notices'' = contribution d ''com.apple.actool.notices''"
    by (simp add: map_of_dict_set reasons_def map_of_add_reason)
  have 7: "map_of ?report ''document notices'' = contribution d ''com.apple.actool.document.notices''"
    by (simp add: map_of_dict_set reasons_def map_of_add_reason)
  have 8: "map_of ?report ''stderr'' = Some (PData (stderr p))"
    by (simp add: map_of_dict_set)
  show ?thesis using c 1 2 3 4 5 6 7 8 by blast
qed

theorem failure_report_enumerates_reasons_witness:
  "wellformed_warnings failed_dict \<and>
   classify failed_reply = Inl (AssetCatalogException (ActoolFailed
     [(''return code'', PString ''1''),
      (''errors'', PArray [PDict [(''description'', PString ''bad catalog'')]]),
      (''document warnings'', PArray [PDict [(''type'', PString ''Unassigned Child'')]]),
      (''stderr'', PData ''spew'')])) \<and>
   (\<exists>report. classify failed_reply = Inl (AssetCatalogException (ActoolFailed report)) \<and>
      map_of report ''return code'' = Some (PString ''1'') \<and>
      map_of report ''errors'' = Some (PArray [PDict [(''description'', PString ''bad catalog'')]]) \<and>
      map_of report ''document warnings'' =
        Some (PArray [PDict [(''type'', PString ''Unassigned Child'')]]) \<and>
      map_of report ''notices'' = None \<and>
      map_of report ''stderr'' = Some (PData ''spew''))"
proof -
  have c: "classify failed_reply = Inl (AssetCatalogException (ActoolFailed
     [(''return code'', PString ''1''),
      (''errors'', PArray [PDict [(''description'', PString ''bad catalog'')]]),
      (''document warnings'', PArray [PDict [(''type'', PString ''Unassigned Child'')]]),
      (''stderr'', PData ''spew'')]))"
    by code_simp
  have d: "output_dict failed_reply = PDict failed_dict"
    by (simp add: failed_reply_def)
  have wf: "wellformed_warnings failed_dict" by code_simp
  have ne: "classify failed_reply \<noteq> Inr ()" unfolding c by simp
  have rc: "returncode failed_reply = 1" "stderr failed_reply = ''spew''"
    by (simp_all add: failed_reply_def)
  have s1: "str_int 1 = ''1''" by code_simp
  have ce: "contribution failed_dict ''com.apple.actool.errors'' =
              Some (PArray [PDict [(''description'', PString ''bad catalog'')]])"
    by code_simp
  have cn: "contribution failed_dict ''com.apple.actool.notices'' = None" by code_simp
  have uw: "unexpected_warnings failed_dict = [PDict [(''type'', PString ''Unassigned Child'')]]"
    by code_simp
  from failure_report_enumerates_reasons [OF d wf ne]
  have "\<exists>report. classify failed_reply = Inl (AssetCatalogException (ActoolFailed report)) \<and>
      map_of report ''return code'' = Some (PString ''1'') \<and>
      map_of report ''errors'' = Some (PArray [PDict [(''description'', PString ''bad catalog'')]]) \<and>
      map_of report ''document warnings'' =
        Some (PArray [PDict [(''type'', PString ''Unassigned Child'')]]) \<and>
      map_of report ''notices'' = None \<and>
      map_of report ''stderr'' = Some (PData ''spew'')"
    unfolding rc s1 ce cn uw by auto
  then show ?thesis using wf c by blast
qed

section \<open>No copy before classification has passed\<close>

lemma copies_append: "copies (xs @ ys) = copies xs @ copies ys"
  by (induction xs rule: copies.induct) auto

text \<open>
  Claim C3: when classification raises, \<^verbatim>\<open>_process_path\<close> raises (the same exception,
  unless the path was already rejected) and no destination file has been copied.
\<close>

theorem no_copy_on_classification_failure:
  assumes "classify proc = Inl e"
  shows "snd (process_path path dt verbose tmp proc) =
           (case name_tag_of path of Inl e' \<Rightarrow> Inl e' | Inr name_tag \<Rightarrow> Inl e) \<and>
         copies (fst (process_path path dt verbose tmp proc)) = []"
  using assms by (simp add: process_path_def Let_def copies_append split: sum.splits)

theorem no_copy_on_classification_failure_witness:
  "classify notice_reply = Inl (AssetCatalogException (ActoolFailed
     [(''notices'',
         PArray [PDict [(''description'', PString ''missing image''), (''type'', PString ''Missing'')]]),
      (''stderr'', PData ''spew'')])) \<and>
   snd (process_path (Path ''Foo.xcassets'') ''11.0'' False ''/tmp/t'' notice_reply) =
     Inl (AssetCatalogException (ActoolFailed
       [(''notices'',
           PArray [PDict [(''description'', PString ''missing image''), (''type'', PString ''Missing'')]]),
        (''stderr'', PData ''spew'')])) \<and>
   copies (fst (process_path (Path ''Foo.xcassets'') ''11.0'' False ''/tmp/t'' notice_reply)) = []"
proof -
  have c: "classify notice_reply = Inl (AssetCatalogException (ActoolFailed
     [(''notices'',
         PArray [PDict [(''description'', PString ''missing image''), (''type'', PString ''Missing'')]]),
      (''stderr'', PData ''spew'')]))"
    by code_simp
  have t: "name_tag_of (Path ''Foo.xcassets'') = Inr []"
    by code_simp
  show ?thesis
    using c t no_copy_on_classification_failure
      [OF c, of "Path ''Foo.xcassets''" "''11.0''" False "''/tmp/t''"]
    by simp
qed

text \<open>
  Claim C10: the count check and the name check do not ask for each expected name once.
  A clean reply that lists \<^verbatim>\<open>partial.plist\<close> three times passes classification, and
  \<^verbatim>\<open>_process_path\<close> returns without an exception and without a single file copy.
\<close>

theorem three_plists_pass_without_copy:
  "classify three_plists_reply = Inr () \<and>
   snd (process_path (Path ''Foo.xcassets'') ''11.0'' False ''/tmp/t'' three_plists_reply) = Inr () \<and>
   copies (fst (process_path (Path ''Foo.xcassets'') ''11.0'' False ''/tmp/t'' three_plists_reply)) = []"
  by code_simp

section \<open>Path validation and the name tag\<close>

text \<open>
  Claim C6, as stated: a path without the \<^verbatim>\<open>.xcassets\<close> suffix, or with more than two
  segments in its stem, fails with the \<^verbatim>\<open>AssetCatalogException\<close> kind before any
  staging. The script raises \<^verbatim>\<open>ValueError\<close> for both, as its docstring says, and it
  has created the temporary directory before it looks at the path.
\<close>

theorem malformed_path_raises_value_error:
  "process_path (Path ''chrome/Assets.txt'') ''11.0'' False ''/tmp/t'' (clean_reply standard_outputs)
     = ([MkTemp ''/tmp/t'', RmTemp ''/tmp/t''],
        Inl (ValueError ''Asset catalog filename must have .xcassets suffix'')) \<and>
   process_path (Path ''chrome/Assets_beta_foo.xcassets'') ''11.0'' False ''/tmp/t''
       (clean_reply standard_outputs)
     = ([MkTemp ''/tmp/t'', RmTemp ''/tmp/t''],
        Inl (ValueError ''Asset catalog filename must have at most one _'')) \<and>
   \<not> (\<exists>m. snd (process_path (Path ''chrome/Assets.txt'') ''11.0'' False ''/tmp/t''
               (clean_reply standard_outputs)) = Inl (AssetCatalogException m)) \<and>
   \<not> (\<exists>m. snd (process_path (Path ''chrome/Assets_beta_foo.xcassets'') ''11.0'' False ''/tmp/t''
               (clean_reply standard_outputs)) = Inl (AssetCatalogException m))"
proof -
  have a: "process_path (Path ''chrome/Assets.txt'') ''11.0'' False ''/tmp/t'' (clean_reply standard_outputs)
     = ([MkTemp ''/tmp/t'', RmTemp ''/tmp/t''],
        Inl (ValueError ''Asset catalog filename must have .xcassets suffix''))"
    by code_simp
  have b: "process_path (Path ''chrome/Assets_beta_foo.xcassets'') ''11.0'' False ''/tmp/t''
       (clean_reply standard_outputs)
     = ([MkTemp ''/tmp/t'', RmTemp ''/tmp/t''],
        Inl (ValueError ''Asset catalog filename must have at most one _''))"
    by code_simp
  show ?thesis unfolding a b by simp
qed

text \<open>
  Claim C6, amended: for every path whose suffix is not \<^verbatim>\<open>.xcassets\<close>, and for every
  path whose stem splits on \<^verbatim>\<open>_\<close> into more than two segments,
  \<^verbatim>\<open>_process_path\<close> raises \<^verbatim>\<open>ValueError\<close>. The temporary directory has been created
  and is removed; the icon package is not staged, the compiler is not invoked and nothing
  is copied.
\<close>

theorem malformed_path_rejected:
  assumes "path_suffix path \<noteq> ''.xcassets'' \<or> 2 < length (split_on CHR ''_'' (path_stem path))"
  shows "\<exists>msg. process_path path dt verbose tmp proc =
           ([MkTemp tmp, RmTemp tmp], Inl (ValueError msg))"
  using assms by (auto simp: process_path_def name_tag_of_def Let_def)

theorem malformed_path_rejected_witness:
  "path_suffix (Path ''chrome/Assets.txt'') \<noteq> ''.xcassets'' \<and>
   (\<exists>msg. process_path (Path ''chrome/Assets.txt'') ''11.0'' True ''/tmp/t'' (clean_reply standard_outputs)
      = ([MkTemp ''/tmp/t'', RmTemp ''/tmp/t''], Inl (ValueError msg)))"
proof -
  have h: "path_suffix (Path ''chrome/Assets.txt'') \<noteq> ''.xcassets''" by code_simp
  then have "path_suffix (Path ''chrome/Assets.txt'') \<noteq> ''.xcassets'' \<or>
             2 < length (split_on CHR ''_'' (path_stem (Path ''chrome/Assets.txt'')))"
    by (rule disjI1)
  from malformed_path_rejected [OF this] h show ?thesis by blast
qed

lemma split_on_not_Nil: "split_on sep s \<noteq> []"
  by (induction s) (auto split: list.splits)

lemma length_split_on: "length (split_on sep s) = Suc (count_list s sep)"
  by (induction s) (auto split: list.splits simp: split_on_not_Nil)

lemma split_on_first:
  "sep \<in> set s \<Longrightarrow>
     split_on sep s = takeWhile (\<lambda>c. c \<noteq> sep) s # split_on sep (tl (dropWhile (\<lambda>c. c \<noteq> sep) s))"
  by (induction s) (auto split: list.splits simp: split_on_not_Nil)

lemma count_list_0: "count_list s c = 0 \<longleftrightarrow> c \<notin> set s"
  by (induction s) auto

lemma count_dropWhile:
  "sep \<in> set s \<Longrightarrow> count_list s sep = Suc (count_list (tl (dropWhile (\<lambda>c. c \<noteq> sep) s)) sep)"
  by (induction s) auto

lemma split_on_one:
  assumes "count_list s sep = 1"
  shows "split_on sep s = [takeWhile (\<lambda>c. c \<noteq> sep) s, tl (dropWhile (\<lambda>c. c \<noteq> sep) s)]"
proof -
  have m: "sep \<in> set s" using assms count_list_0 [of s sep] by auto
  from count_dropWhile [OF m] assms
  have "count_list (tl (dropWhile (\<lambda>c. c \<noteq> sep) s)) sep = 0" by simp
  then have "sep \<notin> set (tl (dropWhile (\<lambda>c. c \<noteq> sep) s))" by (simp add: count_list_0)
  then show ?thesis using split_on_first [OF m] by (simp add: split_on_nosep)
qed

lemma name_tag_by_count:
  assumes "path_suffix p = ''.xcassets''"
  shows "name_tag_of p =
     (let stem = path_stem p; n = count_list stem CHR ''_''
      in if n = 0 then Inr []
         else if n = 1 then Inr (CHR ''_'' # tl (dropWhile (\<lambda>c. c \<noteq> CHR ''_'') stem))
         else Inl (ValueError ''Asset catalog filename must have at most one _''))"
proof -
  let ?n = "count_list (path_stem p) CHR ''_''"
  consider "?n = 0" | "?n = 1" | "2 \<le> ?n" by linarith
  then show ?thesis
  proof cases
    case 1
    then show ?thesis using assms by (simp add: name_tag_of_def Let_def length_split_on)
  next
    case 2
    then show ?thesis using assms split_on_one [OF 2]
      by (simp add: name_tag_of_def Let_def)
  next
    case 3
    then show ?thesis using assms by (simp add: name_tag_of_def Let_def length_split_on)
  qed
qed

lemma split_on_no_sep: "x \<in> set (split_on sep s) \<Longrightarrow> sep \<notin> set x"
  by (induction s arbitrary: x) (auto split: if_splits list.splits)

lemma split_on_subset_all: "\<forall>x\<in>set (split_on sep s). set x \<subseteq> set s"
  by (induction s) (auto split: list.splits)

lemma split_on_subset: "x \<in> set (split_on sep s) \<Longrightarrow> set x \<subseteq> set s"
  using split_on_subset_all by blast

lemma path_name_no_slash: "CHR ''/'' \<notin> set (path_name (Path s))"
proof (cases "path_tail (Path s) = []")
  case True
  then show ?thesis by (simp add: path_name_def)
next
  case False
  then have "last (path_tail (Path s)) \<in> set (path_tail (Path s))" by simp
  then have "last (path_tail (Path s)) \<in> set (split_on CHR ''/'' s)" by (simp add: Path_def)
  then show ?thesis using False by (simp add: path_name_def split_on_no_sep)
qed

lemma path_stem_subset: "set (path_stem p) \<subseteq> set (path_name p)"
  by (auto simp: path_stem_def Let_def split: option.splits dest: in_set_takeD)

lemma name_tag_no_slash:
  assumes "name_tag_of (Path s) = Inr tag"
  shows "CHR ''/'' \<notin> set tag"
proof -
  let ?parts = "split_on CHR ''_'' (path_stem (Path s))"
  have stem: "CHR ''/'' \<notin> set (path_stem (Path s))"
    using path_stem_subset [of "Path s"] path_name_no_slash [of s] by auto
  show ?thesis
  proof (cases "length ?parts = 2")
    case True
    then have "?parts ! 1 \<in> set ?parts" by simp
    then have "set (?parts ! 1) \<subseteq> set (path_stem (Path s))" by (rule split_on_subset)
    moreover have "tag = CHR ''_'' # ?parts ! 1"
      using assms True by (simp add: name_tag_of_def Let_def split: if_splits)
    ultimately show ?thesis using stem by auto
  next
    case False
    then have "tag = []" using assms by (simp add: name_tag_of_def Let_def split: if_splits)
    then show ?thesis by simp
  qed
qed

lemma joinpath_component:
  assumes "CHR ''/'' \<notin> set x" and "x \<noteq> []" and "x \<noteq> ''.''"
  shows "joinpath p x = p\<lparr>path_tail := path_tail p @ [x]\<rparr>"
proof -
  have "hd x \<noteq> CHR ''/''" using assms(1,2) by (cases x) auto
  moreover have "path_tail (Path x) = [x]"
    using assms by (simp add: Path_def split_on_nosep)
  ultimately show ?thesis by (simp add: joinpath_def)
qed

lemma path_name_joinpath:
  assumes "CHR ''/'' \<notin> set x" and "x \<noteq> []" and "x \<noteq> ''.''"
  shows "path_name (joinpath p x) = x"
  using joinpath_component [OF assms] by (simp add: path_name_def)

lemma route_outputs_destinations:
  "list_all (destination_ok sd tag) (copies (fst (route_outputs v sd tag fs)))"
proof (induction fs)
  case Nil
  then show ?case by simp
next
  case (Cons f fs)
  then show ?case
    by (cases "as_path f") (auto simp: Let_def destination_ok_def copies_append)
qed

lemma relocate_destinations:
  "list_all (destination_ok sd tag) (copies (fst (relocate v sd tag out)))"
  by (auto simp: relocate_def route_outputs_destinations split: sum.splits option.splits)

lemma process_path_destinations:
  assumes "name_tag_of path = Inr tag"
  shows "list_all (destination_ok (joinpath path ''..'') tag)
           (copies (fst (process_path path dt verbose tmp proc)))"
  using assms relocate_destinations [of "joinpath path ''..''" tag verbose "output_dict proc"]
  by (auto simp: process_path_def Let_def copies_append split: sum.splits)

lemma destination_name:
  assumes "destination_ok parent tag c" and "CHR ''/'' \<notin> set tag"
  shows "path_name (snd c) =
           (if path_name (fst c) = ''AppIcon.icns'' then ''app'' @ tag @ ''.icns''
            else ''Assets'' @ tag @ ''.car'')"
proof -
  have a: "path_name (joinpath parent (''app'' @ tag @ ''.icns'')) = ''app'' @ tag @ ''.icns''"
    using assms(2) by (intro path_name_joinpath) auto
  have b: "path_name (joinpath parent (''Assets'' @ tag @ ''.car'')) = ''Assets'' @ tag @ ''.car''"
    using assms(2) by (intro path_name_joinpath) auto
  show ?thesis using assms(1) a b by (auto simp: destination_ok_def)
qed

text \<open>
  Claim C7: for a catalog path \<^verbatim>\<open>pathlib.Path(s)\<close> with the \<^verbatim>\<open>.xcassets\<close> suffix, the
  name tag is empty when the stem has no \<^verbatim>\<open>_\<close>, it is \<^verbatim>\<open>_\<close> followed by the text
  after the \<^verbatim>\<open>_\<close> when the stem has exactly one, and the path is rejected when the
  stem has two or more. Every file that \<^verbatim>\<open>_process_path\<close> copies goes to
  \<^verbatim>\<open>app<NameTag>.icns\<close> or \<^verbatim>\<open>Assets<NameTag>.car\<close> beside the catalog, and that is
  the final component of the destination.
\<close>

theorem name_tag_extraction:
  assumes "path_suffix (Path s) = ''.xcassets''"
  shows "name_tag_of (Path s) =
     (let stem = path_stem (Path s); n = count_list stem CHR ''_''
      in if n = 0 then Inr []
         else if n = 1 then Inr (CHR ''_'' # tl (dropWhile (\<lambda>c. c \<noteq> CHR ''_'') stem))
         else Inl (ValueError ''Asset catalog filename must have at most one _'')) \<and>
   (case name_tag_of (Path s) of
      Inl e \<Rightarrow> process_path (Path s) dt verbose tmp proc = ([MkTemp tmp, RmTemp tmp], Inl e)
    | Inr tag \<Rightarrow>
        list_all (\<lambda>c. destination_ok (joinpath (Path s) ''..'') tag c \<and>
                      path_name (snd c) =
                        (if path_name (fst c) = ''AppIcon.icns'' then ''app'' @ tag @ ''.icns''
                         else ''Assets'' @ tag @ ''.car''))
          (copies (fst (process_path (Path s) dt verbose tmp proc))))"
proof -
  have 1: "name_tag_of (Path s) =
     (let stem = path_stem (Path s); n = count_list stem CHR ''_''
      in if n = 0 then Inr []
         else if n = 1 then Inr (CHR ''_'' # tl (dropWhile (\<lambda>c. c \<noteq> CHR ''_'') stem))
         else Inl (ValueError ''Asset catalog filename must have at most one _''))"
    using assms by (rule name_tag_by_count)
  have 2: "case name_tag_of (Path s) of
      Inl e \<Rightarrow> process_path (Path s) dt verbose tmp proc = ([MkTemp tmp, RmTemp tmp], Inl e)
    | Inr tag \<Rightarrow>
        list_all (\<lambda>c. destination_ok (joinpath (Path s) ''..'') tag c \<and>
                      path_name (snd c) =
                        (if path_name (fst c) = ''AppIcon.icns'' then ''app'' @ tag @ ''.icns''
                         else ''Assets'' @ tag @ ''.car''))
          (copies (fst (process_path (Path s) dt verbose tmp proc)))"
  proof (cases "name_tag_of (Path s)")
    case (Inl e)
    then show ?thesis by (simp add: process_path_def Let_def)
  next
    case (Inr tag)
    have ns: "CHR ''/'' \<notin> set tag" using Inr by (rule name_tag_no_slash)
    have all: "list_all (destination_ok (joinpath (Path s) ''..'') tag)
            (copies (fst (process_path (Path s) dt verbose tmp proc)))"
      using Inr by (rule process_path_destinations)
    have "\<forall>c\<in>set (copies (fst (process_path (Path s) dt verbose tmp proc))).
            destination_ok (joinpath (Path s) ''..'') tag c \<and>
            path_name (snd c) =
              (if path_name (fst c) = ''AppIcon.icns'' then ''app'' @ tag @ ''.icns''
               else ''Assets'' @ tag @ ''.car'')"
    proof
      fix c
      assume "c \<in> set (copies (fst (process_path (Path s) dt verbose tmp proc)))"
      with all have d: "destination_ok (joinpath (Path s) ''..'') tag c"
        by (simp add: list_all_iff)
      from d destination_name [OF d ns]
      show "destination_ok (joinpath (Path s) ''..'') tag c \<and>
            path_name (snd c) =
              (if path_name (fst c) = ''AppIcon.icns'' then ''app'' @ tag @ ''.icns''
               else ''Assets'' @ tag @ ''.car'')"
        by (rule conjI)
    qed
    then show ?thesis
      using Inr by (simp add: list_all_iff)
  qed
  show ?thesis using 1 2 by blast
qed

theorem name_tag_extraction_witness:
  "path_suffix (Path ''chrome/Foo_beta.xcassets'') = ''.xcassets'' \<and>
   name_tag_of (Path ''chrome/Foo_beta.xcassets'') = Inr ''_beta'' \<and>
   name_tag_of (Path ''chrome/Foo.xcassets'') = Inr [] \<and>
   map (\<lambda>c. path_name (snd c))
     (copies (fst (process_path (Path ''chrome/Foo_beta.xcassets'') ''11.0'' False ''/tmp/t''
        (clean_reply standard_outputs)))) = [''app_beta.icns'', ''Assets_beta.car'']"
proof -
  have h: "path_suffix (Path ''chrome/Foo_beta.xcassets'') = ''.xcassets''" by code_simp
  have h': "path_suffix (Path ''chrome/Foo.xcassets'') = ''.xcassets''" by code_simp
  have st: "path_stem (Path ''chrome/Foo_beta.xcassets'') = ''Foo_beta''" by code_simp
  have st': "path_stem (Path ''chrome/Foo.xcassets'') = ''Foo''" by code_simp
  have t: "name_tag_of (Path ''chrome/Foo_beta.xcassets'') = Inr ''_beta''"
    using name_tag_extraction [OF h] st by simp
  have t': "name_tag_of (Path ''chrome/Foo.xcassets'') = Inr []"
    using name_tag_extraction [OF h'] st' by simp
  have c: "map (\<lambda>c. path_name (snd c))
     (copies (fst (process_path (Path ''chrome/Foo_beta.xcassets'') ''11.0'' False ''/tmp/t''
        (clean_reply standard_outputs)))) = [''app_beta.icns'', ''Assets_beta.car'']"
    by code_simp
  show ?thesis using h t t' c by simp
qed

section \<open>Relocation of the output files\<close>

lemma route_outputs_strings:
  "snd (route_outputs v sd tag (map PString fs)) =
     (case find (\<lambda>f. \<not> recognized f) fs of
        None \<Rightarrow> Inr ()
      | Some f \<Rightarrow> Inl (AssetCatalogException (UnexpectedOutputFile (Path f)))) \<and>
   copies (fst (route_outputs v sd tag (map PString fs))) =
     concat (map (routed_copy sd tag) (takeWhile recognized fs))"
  by (induction fs) (auto simp: recognized_def routed_copy_def Let_def copies_append)

lemma relocate_strings:
  assumes "map_of d ''com.apple.actool.compilation-results'' = Some (PDict r)"
    and "map_of r ''output-files'' = Some (PArray (map PString fs))"
  shows "relocate v sd tag (PDict d) =
     (if length fs \<noteq> 3
      then ([], Inl (AssetCatalogException (WrongOutputCount (length fs) (PArray (map PString fs)))))
      else route_outputs v sd tag (map PString fs))"
  using assms by (simp add: relocate_def)

lemma sibling_joinpath:
  assumes "CHR ''/'' \<notin> set x" and "x \<noteq> []" and "x \<noteq> ''.''"
  shows "joinpath (joinpath p ''..'') x = sibling p x"
proof -
  let ?q = "p\<lparr>path_tail := path_tail p @ [''..'']\<rparr>"
  have a: "joinpath p ''..'' = ?q"
    by (rule joinpath_component) simp_all
  have b: "joinpath ?q x = ?q\<lparr>path_tail := path_tail ?q @ [x]\<rparr>"
    using assms by (rule joinpath_component)
  show ?thesis
    unfolding a b by (cases p) (simp add: sibling_def)
qed

lemma routed_copy_sibling:
  assumes "CHR ''/'' \<notin> set tag"
  shows "routed_copy (joinpath p ''..'') tag f = expected_copy p tag f"
proof -
  have a: "joinpath (joinpath p ''..'') (''app'' @ tag @ ''.icns'') = sibling p (''app'' @ tag @ ''.icns'')"
    using assms by (intro sibling_joinpath) auto
  have b: "joinpath (joinpath p ''..'') (''Assets'' @ tag @ ''.car'') = sibling p (''Assets'' @ tag @ ''.car'')"
    using assms by (intro sibling_joinpath) auto
  show ?thesis by (simp only: routed_copy_def expected_copy_def a b)
qed

text \<open>
  Claim C2: once the catalog path \<^verbatim>\<open>pathlib.Path(s)\<close> is accepted and classification has
  passed, a list of output files that has not exactly three entries makes
  \<^verbatim>\<open>_process_path\<close> fail with nothing copied. With three entries, each is routed by
  the final component of its path, in order: \<^verbatim>\<open>partial.plist\<close> is ignored,
  \<^verbatim>\<open>AppIcon.icns\<close> is copied to \<^verbatim>\<open><catalog>/../app<NameTag>.icns\<close>,
  \<^verbatim>\<open>Assets.car\<close> to \<^verbatim>\<open><catalog>/../Assets<NameTag>.car\<close> (the components of the
  catalog path, then \<^verbatim>\<open>..\<close>, then the file name: \<^const>\<open>sibling\<close>), and the first
  entry with another name raises (the copies are those of the entries before it).
\<close>

theorem relocation_routes_three_outputs:
  assumes "name_tag_of (Path s) = Inr name_tag"
    and "classify proc = Inr ()"
    and "output_dict proc = PDict d"
    and "map_of d ''com.apple.actool.compilation-results'' = Some (PDict r)"
    and "map_of r ''output-files'' = Some (PArray (map PString fs))"
  shows "snd (process_path (Path s) dt verbose tmp proc) =
           (if length fs \<noteq> 3
            then Inl (AssetCatalogException (WrongOutputCount (length fs) (PArray (map PString fs))))
            else (case find (\<lambda>f. \<not> recognized f) fs of
                    None \<Rightarrow> Inr ()
                  | Some f \<Rightarrow> Inl (AssetCatalogException (UnexpectedOutputFile (Path f))))) \<and>
         copies (fst (process_path (Path s) dt verbose tmp proc)) =
           (if length fs \<noteq> 3 then []
            else concat (map (expected_copy (Path s) name_tag) (takeWhile recognized fs)))"
proof -
  have ns: "CHR ''/'' \<notin> set name_tag" using assms(1) by (rule name_tag_no_slash)
  have e: "routed_copy (joinpath (Path s) ''..'') name_tag = expected_copy (Path s) name_tag"
    using routed_copy_sibling [OF ns] by (simp add: fun_eq_iff)
  have r: "relocate verbose (joinpath (Path s) ''..'') name_tag (output_dict proc) =
     (if length fs \<noteq> 3
      then ([], Inl (AssetCatalogException (WrongOutputCount (length fs) (PArray (map PString fs)))))
      else route_outputs verbose (joinpath (Path s) ''..'') name_tag (map PString fs))"
    unfolding assms(3) using assms(4,5) by (rule relocate_strings)
  show ?thesis
    using assms(1,2) route_outputs_strings [of verbose "joinpath (Path s) ''..''" name_tag fs]
    by (simp add: process_path_def Let_def r e copies_append)
qed

theorem relocation_routes_three_outputs_witness:
  "name_tag_of (Path ''chrome/Foo_beta.xcassets'') = Inr ''_beta'' \<and>
   classify (clean_reply standard_outputs) = Inr () \<and>
   snd (process_path (Path ''chrome/Foo_beta.xcassets'') ''11.0'' False ''/tmp/t''
          (clean_reply standard_outputs)) = Inr () \<and>
   copies (fst (process_path (Path ''chrome/Foo_beta.xcassets'') ''11.0'' False ''/tmp/t''
          (clean_reply standard_outputs))) =
     [(\<lparr>path_root = ''/'', path_tail = [''tmp'', ''t'', ''AppIcon.icns'']\<rparr>,
       \<lparr>path_root = [], path_tail = [''chrome'', ''Foo_beta.xcassets'', ''..'', ''app_beta.icns'']\<rparr>),
      (\<lparr>path_root = ''/'', path_tail = [''tmp'', ''t'', ''Assets.car'']\<rparr>,
       \<lparr>path_root = [], path_tail = [''chrome'', ''Foo_beta.xcassets'', ''..'', ''Assets_beta.car'']\<rparr>)] \<and>
   map (\<lambda>c. path_str (snd c))
     (copies (fst (process_path (Path ''chrome/Foo_beta.xcassets'') ''11.0'' False ''/tmp/t''
          (clean_reply standard_outputs)))) =
     [''chrome/Foo_beta.xcassets/../app_beta.icns'', ''chrome/Foo_beta.xcassets/../Assets_beta.car''] \<and>
   snd (process_path (Path ''chrome/Foo_beta.xcassets'') ''11.0'' False ''/tmp/t''
          (clean_reply four_outputs)) =
     Inl (AssetCatalogException (WrongOutputCount 4 (PArray (map PString four_outputs)))) \<and>
   copies (fst (process_path (Path ''chrome/Foo_beta.xcassets'') ''11.0'' False ''/tmp/t''
          (clean_reply four_outputs))) = [] \<and>
   snd (process_path (Path ''chrome/Foo_beta.xcassets'') ''11.0'' False ''/tmp/t''
          (clean_reply stray_outputs)) =
     Inl (AssetCatalogException (UnexpectedOutputFile
            \<lparr>path_root = ''/'', path_tail = [''tmp'', ''t'', ''notes.txt'']\<rparr>)) \<and>
   copies (fst (process_path (Path ''chrome/Foo_beta.xcassets'') ''11.0'' False ''/tmp/t''
          (clean_reply stray_outputs))) =
     [(\<lparr>path_root = ''/'', path_tail = [''tmp'', ''t'', ''AppIcon.icns'']\<rparr>,
       \<lparr>path_root = [], path_tail = [''chrome'', ''Foo_beta.xcassets'', ''..'', ''app_beta.icns'']\<rparr>)]"
proof -
  let ?run = "\<lambda>fs. process_path (Path ''chrome/Foo_beta.xcassets'') ''11.0'' False ''/tmp/t''
                      (clean_reply fs)"
  have t: "name_tag_of (Path ''chrome/Foo_beta.xcassets'') = Inr ''_beta''" by code_simp
  have c: "classify (clean_reply fs) = Inr ()" for fs
    by (simp add: classify_def gather_failures_def collect_failures_def bind_exn_def
        clean_reply_def compilation_results_def Let_def)
  have o: "output_dict (clean_reply fs) = PDict [compilation_results fs]" for fs
    by (simp add: clean_reply_def)
  have r: "map_of [compilation_results fs] ''com.apple.actool.compilation-results''
             = Some (PDict [(''output-files'', PArray (map PString fs))])" for fs
    by (simp add: compilation_results_def)
  have f: "map_of [(''output-files'', PArray (map PString fs))] ''output-files''
             = Some (PArray (map PString fs))" for fs
    by simp
  have inst: "snd (?run fs) =
           (if length fs \<noteq> 3
            then Inl (AssetCatalogException (WrongOutputCount (length fs) (PArray (map PString fs))))
            else (case find (\<lambda>f. \<not> recognized f) fs of
                    None \<Rightarrow> Inr ()
                  | Some f \<Rightarrow> Inl (AssetCatalogException (UnexpectedOutputFile (Path f))))) \<and>
         copies (fst (?run fs)) =
           (if length fs \<noteq> 3 then []
            else concat (map (expected_copy (Path ''chrome/Foo_beta.xcassets'') ''_beta'')
                   (takeWhile recognized fs)))" for fs
    by (rule relocation_routes_three_outputs [OF t c o r f])
  have len: "length standard_outputs = 3" "length four_outputs = 4" "length stray_outputs = 3"
    by code_simp+
  have fnd: "find (\<lambda>f. \<not> recognized f) standard_outputs = None"
    "find (\<lambda>f. \<not> recognized f) stray_outputs = Some ''/tmp/t/notes.txt''"
    by code_simp+
  have p: "Path ''/tmp/t/notes.txt'' = \<lparr>path_root = ''/'', path_tail = [''tmp'', ''t'', ''notes.txt'']\<rparr>"
    by code_simp
  have exp: "concat (map (expected_copy (Path ''chrome/Foo_beta.xcassets'') ''_beta'')
                 (takeWhile recognized standard_outputs)) =
     [(\<lparr>path_root = ''/'', path_tail = [''tmp'', ''t'', ''AppIcon.icns'']\<rparr>,
       \<lparr>path_root = [], path_tail = [''chrome'', ''Foo_beta.xcassets'', ''..'', ''app_beta.icns'']\<rparr>),
      (\<lparr>path_root = ''/'', path_tail = [''tmp'', ''t'', ''Assets.car'']\<rparr>,
       \<lparr>path_root = [], path_tail = [''chrome'', ''Foo_beta.xcassets'', ''..'', ''Assets_beta.car'']\<rparr>)]"
    by code_simp
  have exp': "concat (map (expected_copy (Path ''chrome/Foo_beta.xcassets'') ''_beta'')
                 (takeWhile recognized stray_outputs)) =
     [(\<lparr>path_root = ''/'', path_tail = [''tmp'', ''t'', ''AppIcon.icns'']\<rparr>,
       \<lparr>path_root = [], path_tail = [''chrome'', ''Foo_beta.xcassets'', ''..'', ''app_beta.icns'']\<rparr>)]"
    by code_simp
  have 1: "snd (?run standard_outputs) = Inr ()"
    using inst [of standard_outputs] by (simp add: len fnd)
  have 2: "copies (fst (?run standard_outputs)) =
     [(\<lparr>path_root = ''/'', path_tail = [''tmp'', ''t'', ''AppIcon.icns'']\<rparr>,
       \<lparr>path_root = [], path_tail = [''chrome'', ''Foo_beta.xcassets'', ''..'', ''app_beta.icns'']\<rparr>),
      (\<lparr>path_root = ''/'', path_tail = [''tmp'', ''t'', ''Assets.car'']\<rparr>,
       \<lparr>path_root = [], path_tail = [''chrome'', ''Foo_beta.xcassets'', ''..'', ''Assets_beta.car'']\<rparr>)]"
    using inst [of standard_outputs] by (simp add: len exp)
  have evaluated: "copies (fst (?run standard_outputs)) =
     [(\<lparr>path_root = ''/'', path_tail = [''tmp'', ''t'', ''AppIcon.icns'']\<rparr>,
       \<lparr>path_root = [], path_tail = [''chrome'', ''Foo_beta.xcassets'', ''..'', ''app_beta.icns'']\<rparr>),
      (\<lparr>path_root = ''/'', path_tail = [''tmp'', ''t'', ''Assets.car'']\<rparr>,
       \<lparr>path_root = [], path_tail = [''chrome'', ''Foo_beta.xcassets'', ''..'', ''Assets_beta.car'']\<rparr>)]"
    by code_simp
  have 3: "map (\<lambda>c. path_str (snd c)) (copies (fst (?run standard_outputs))) =
     [''chrome/Foo_beta.xcassets/../app_beta.icns'', ''chrome/Foo_beta.xcassets/../Assets_beta.car'']"
    unfolding 2 by code_simp
  have 4: "snd (?run four_outputs) =
     Inl (AssetCatalogException (WrongOutputCount 4 (PArray (map PString four_outputs))))"
    using inst [of four_outputs] by (simp add: len)
  have 7: "copies (fst (?run four_outputs)) = []"
    using inst [of four_outputs] by (simp add: len)
  have 5: "snd (?run stray_outputs) =
     Inl (AssetCatalogException (UnexpectedOutputFile
            \<lparr>path_root = ''/'', path_tail = [''tmp'', ''t'', ''notes.txt'']\<rparr>))"
    using inst [of stray_outputs] by (simp add: len fnd p)
  have 6: "copies (fst (?run stray_outputs)) =
     [(\<lparr>path_root = ''/'', path_tail = [''tmp'', ''t'', ''AppIcon.icns'']\<rparr>,
       \<lparr>path_root = [], path_tail = [''chrome'', ''Foo_beta.xcassets'', ''..'', ''app_beta.icns'']\<rparr>)]"
    using inst [of stray_outputs] by (simp add: len exp')
  show ?thesis using t c 1 2 evaluated 3 4 5 6 7 by simp
qed

section \<open>The deployment target\<close>








end
